theory Spec2Isabelle
  imports Main "HOL-Library.Word"
begin

section \<open>Common values\<close>

text \<open>
  A Go \<^verbatim>\<open>error\<close> of the transport and session code is either created from a message or is
  \<^verbatim>\<open>errors.Wrap(err, msg)\<close> of another one. \<^verbatim>\<open>nil\<close> is \<open>None\<close> of \<open>error option\<close>.
  \<open>Error\<close> is the \<^verbatim>\<open>Error()\<close> method: the message, with the wrapping message in front.
\<close>

datatype error = New string | Wrap string error

fun Error :: "error \<Rightarrow> string" where
  "Error (New m) = m"
| "Error (Wrap m e) = m @ '': '' @ Error e"

text \<open>
  A call either returns or panics (a nil dereference, closing a channel twice).
\<close>

datatype 'a outcome = Panic | Return 'a

type_synonym bytes = "8 word list"

section \<open>internal/wsutil/conn.go\<close>

type_synonym StatusCode = int

definition StatusNormalClosure :: StatusCode where
  "StatusNormalClosure = 1000"

definition StatusProtocolError :: StatusCode where
  "StatusProtocolError = 1002"

definition WSReadLimit :: int where
  "WSReadLimit = 8192000"

text \<open>
  \<^verbatim>\<open>Event{Data, Error}\<close>. \<open>Data = None\<close> is the nil slice.
\<close>

record Event =
  Data :: "bytes option"
  Error_of :: "error option"

text \<open>
  \<^verbatim>\<open>Conn\<close> embeds the handle \<^verbatim>\<open>*websocket.Conn\<close> of the websocket library; the field \<open>Conn\<close> is
  \<open>None\<close> while that pointer is nil. The library's handle is the type parameter \<open>'h\<close>, and the
  library calls made on it are parameters of the functions below. \<open>readLoops\<close> counts the
  read workers that \<open>Dial\<close> has started.
\<close>

record 'h Conn =
  Conn :: "'h option"
  readLoops :: nat

text \<open>
  \<^verbatim>\<open>Dial\<close>. \<open>websocket_Dial\<close> is the library's dial, giving the handle (nil on failure) and the
  error; \<open>SetReadLimit\<close> is the library's method on the handle, which dereferences its
  receiver, so the call on a nil handle panics. The source stores the handle, calls
  \<open>SetReadLimit\<close> on it, starts the read worker and only then returns the dial error.
\<close>

definition Dial ::
  "(string \<Rightarrow> 'h option \<times> error option) \<Rightarrow> ('h \<Rightarrow> int \<Rightarrow> 'h) \<Rightarrow>
   'h Conn \<Rightarrow> string \<Rightarrow> (error option \<times> 'h Conn) outcome" where
  "Dial websocket_Dial SetReadLimit c addr =
     (case websocket_Dial addr of (conn, err) \<Rightarrow>
        (let c1 = c\<lparr>Conn := conn\<rparr> in
         case Conn c1 of
           None \<Rightarrow> Panic
         | Some h \<Rightarrow>
             (let c2 = c1\<lparr>Conn := Some (SetReadLimit h WSReadLimit)\<rparr>;
                  c3 = c2\<lparr>readLoops := Suc (readLoops c2)\<rparr>
              in Return (err, c3))))"

text \<open>
  \<^verbatim>\<open>readAll\<close>. One call of \<^verbatim>\<open>c.Reader\<close> gives the message type, a reader and an error; the
  reader is the type parameter \<open>'r\<close>. \<open>zlib_NewReader\<close> and \<open>ReadAll\<close> are the library calls on
  it. \<^verbatim>\<open>CloseRead\<close> and the deferred \<^verbatim>\<open>z.Close\<close> do not change what is returned.
\<close>

datatype MessageType = MessageText | MessageBinary

definition readAll ::
  "('r \<Rightarrow> error + 'r) \<Rightarrow> ('r \<Rightarrow> error + bytes) \<Rightarrow>
   MessageType \<times> 'r \<times> error option \<Rightarrow> error + bytes" where
  "readAll zlib_NewReader ReadAll frame =
     (case frame of
        (t, r, Some err) \<Rightarrow> Inl err
      | (t, r, None) \<Rightarrow>
          (if t = MessageBinary then
             (case zlib_NewReader r of
                Inl err \<Rightarrow> Inl (Wrap ''Failed to create a zlib reader'' err)
              | Inr z \<Rightarrow> ReadAll z)
           else ReadAll r))"

text \<open>
  \<^verbatim>\<open>readLoop\<close>. The loop reads frames for as long as the socket delivers them; the list is
  the sequence of results of \<^verbatim>\<open>c.Reader\<close>, one for each turn of the loop. The result is the
  events sent to the channel, in order, and whether the loop has returned (\<open>False\<close>: it waits
  for the next frame). \<open>CloseStatus\<close> is the library's \<^verbatim>\<open>websocket.CloseStatus\<close>.
\<close>

fun readLoop ::
  "(error \<Rightarrow> int) \<Rightarrow> ('r \<Rightarrow> error + 'r) \<Rightarrow> ('r \<Rightarrow> error + bytes) \<Rightarrow>
   (MessageType \<times> 'r \<times> error option) list \<Rightarrow> Event list \<times> bool" where
  "readLoop CloseStatus zlib_NewReader ReadAll [] = ([], False)"
| "readLoop CloseStatus zlib_NewReader ReadAll (frame # frames) =
     (case readAll zlib_NewReader ReadAll frame of
        Inl err \<Rightarrow>
          (let code = CloseStatus err in
           if code > - 1 then
             (if code \<noteq> StatusNormalClosure
              then ([\<lparr>Data = None, Error_of = Some (Wrap ''WS fatal'' err)\<rparr>], True)
              else ([], True))
           else
             (case readLoop CloseStatus zlib_NewReader ReadAll frames of
                (evs, done) \<Rightarrow>
                  (\<lparr>Data = None, Error_of = Some (Wrap ''WS error'' err)\<rparr> # evs, done)))
      | Inr b \<Rightarrow>
          (case readLoop CloseStatus zlib_NewReader ReadAll frames of
             (evs, done) \<Rightarrow> (\<lparr>Data = Some b, Error_of = None\<rparr> # evs, done)))"

text \<open>
  \<^verbatim>\<open>Close\<close>. \<open>websocket_Close\<close> is the library's \<^verbatim>\<open>Close(code, reason)\<close> on the handle, giving
  its error. A Go string is its bytes, so \<^verbatim>\<open>len(msg)\<close> is \<open>length\<close> and \<^verbatim>\<open>msg[:125]\<close> is
  \<open>take 125\<close>.
\<close>

definition Close ::
  "('h \<Rightarrow> StatusCode \<Rightarrow> string \<Rightarrow> error option) \<Rightarrow> 'h Conn \<Rightarrow> error option \<Rightarrow>
   error option outcome" where
  "Close websocket_Close c err =
     (case Conn c of
        None \<Rightarrow> Panic
      | Some h \<Rightarrow>
          (case err of
             None \<Rightarrow> Return (websocket_Close h StatusNormalClosure [])
           | Some e \<Rightarrow>
               (let msg = Error e;
                    msg = (if length msg > 125 then take 125 msg else msg)
                in Return (websocket_Close h StatusProtocolError msg))))"

text \<open>
  The close frame that the library \<^verbatim>\<open>nhooyr.io/websocket\<close> writes, as the websocket protocol
  lays it out (RFC 6455, sections 5.5 and 5.5.1): a control frame carries at most 125 bytes
  of payload, and the payload of a close frame is the status code in two bytes, high byte
  first, followed by the reason. The library's \<^verbatim>\<open>maxCloseReason\<close> is therefore
  \<^verbatim>\<open>maxControlPayload - 2\<close>, and marshalling a close frame fails when the reason is longer.
  \<open>close_frame\<close> is the payload (\<open>None\<close> when the reason does not fit), and
  \<open>frame_Close\<close> is a handle's close on a transport that never fails: its only error is the
  refusal of a reason that is too long.
\<close>

definition maxControlPayload :: nat where
  "maxControlPayload = 125"

definition maxCloseReason :: nat where
  "maxCloseReason = maxControlPayload - 2"

definition close_frame :: "StatusCode \<Rightarrow> string \<Rightarrow> bytes option" where
  "close_frame code reason =
     (if length reason > maxCloseReason then None
      else Some (word_of_int (code div 256) # word_of_int (code mod 256) #
                 map (\<lambda>ch. word_of_nat (of_char ch)) reason))"

definition frame_Close :: "'h \<Rightarrow> StatusCode \<Rightarrow> string \<Rightarrow> error option" where
  "frame_Close h code reason =
     (case close_frame code reason of
        None \<Rightarrow> Some (New ''failed to marshal close frame: reason string max is 123'')
      | Some p \<Rightarrow> None)"

text \<open>
  A stub of the library, for the examples: the status of an error is the one its message
  names; readers are the bytes they hold and no payload is compressed (\<open>Inr\<close> for both
  library calls).
\<close>

definition stub_CloseStatus :: "error \<Rightarrow> int" where
  "stub_CloseStatus e =
     (if e = New ''closed 1000'' then 1000 else if e = New ''closed 1006'' then 1006 else - 1)"

section \<open>utils/bot/extras/middlewares/middlewares.go, second part: package session\<close>

text \<open>
  The stop signal \<^verbatim>\<open>hstop chan struct{}\<close> is only ever made and closed. Closing a nil or an
  already closed channel panics.
\<close>

datatype chan = NilChan | OpenChan | ClosedChan

definition close_chan :: "chan \<Rightarrow> chan outcome" where
  "close_chan ch = (case ch of OpenChan \<Rightarrow> Return ClosedChan | _ \<Rightarrow> Panic)"

text \<open>
  \<open>wstop\<close> is the \<^verbatim>\<open>sync.Once\<close>: \<open>True\<close> once \<^verbatim>\<open>Do\<close> has run its function. The Gateway belongs to
  another package; its state is the type parameter \<open>'g\<close> and its \<^verbatim>\<open>Open\<close> and \<^verbatim>\<open>Close\<close> are
  parameters, each giving the error and the Gateway's next state.
\<close>

record sessionState =
  hstop :: chan
  wstop :: bool

record 'g Session = sessionState +
  Gateway :: 'g

text \<open>
  \<^verbatim>\<open>Reset\<close> makes a fresh stop signal and a fresh guard. \<^verbatim>\<open>NewWithGateway\<close> leaves the state at
  its zero value: a nil channel and a guard that has not fired.
\<close>

definition Reset :: "'g Session \<Rightarrow> 'g Session" where
  "Reset state = state\<lparr>hstop := OpenChan, wstop := False\<rparr>"

definition NewWithGateway :: "'g \<Rightarrow> 'g Session" where
  "NewWithGateway gw = \<lparr>hstop = NilChan, wstop = False, Gateway = gw\<rparr>"

text \<open>
  \<^verbatim>\<open>Open\<close> resets the state, starts the dispatch worker, sets the Gateway's close hook and
  opens the Gateway. The worker and the hook do not write the lifecycle state. \<^verbatim>\<open>Close\<close>
  closes the stop signal under the guard (\<^verbatim>\<open>wstop.Do\<close> runs its function only while the guard
  has not fired), then closes the Gateway and returns its error.
\<close>

definition Session_Open ::
  "('g \<Rightarrow> error option \<times> 'g) \<Rightarrow> 'g Session \<Rightarrow> error option \<times> 'g Session" where
  "Session_Open Gateway_Open s =
     (let s1 = Reset s in
      case Gateway_Open (Gateway s1) of
        (Some err, g) \<Rightarrow> (Some (Wrap ''failed to start gateway'' err), s1\<lparr>Gateway := g\<rparr>)
      | (None, g) \<Rightarrow> (None, s1\<lparr>Gateway := g\<rparr>))"

definition Session_Close ::
  "('g \<Rightarrow> error option \<times> 'g) \<Rightarrow> 'g Session \<Rightarrow> (error option \<times> 'g Session) outcome" where
  "Session_Close Gateway_Close s =
     (case (if wstop s then Return s
            else (case close_chan (hstop s) of
                    Panic \<Rightarrow> Panic
                  | Return ch \<Rightarrow> Return (s\<lparr>hstop := ch, wstop := True\<rparr>))) of
        Panic \<Rightarrow> Panic
      | Return s1 \<Rightarrow>
          (case Gateway_Close (Gateway s1) of
             (err, g) \<Rightarrow> Return (err, s1\<lparr>Gateway := g\<rparr>)))"

text \<open>
  \<open>Close_times n\<close> calls \<open>Session_Close\<close> \<open>n\<close> times in a row and collects what each call
  returned.
\<close>

fun Close_times ::
  "('g \<Rightarrow> error option \<times> 'g) \<Rightarrow> nat \<Rightarrow> 'g Session \<Rightarrow>
   (error option list \<times> 'g Session) outcome" where
  "Close_times Gateway_Close 0 s = Return ([], s)"
| "Close_times Gateway_Close (Suc n) s =
     (case Session_Close Gateway_Close s of
        Panic \<Rightarrow> Panic
      | Return (err, s1) \<Rightarrow>
          (case Close_times Gateway_Close n s1 of
             Panic \<Rightarrow> Panic
           | Return (errs, s2) \<Rightarrow> Return (err # errs, s2)))"

text \<open>
  A stub Gateway that counts the \<^verbatim>\<open>Close\<close> calls it receives and never fails, and one whose
  \<^verbatim>\<open>Open\<close> succeeds without touching the count.
\<close>

definition counting_Close :: "nat \<Rightarrow> error option \<times> nat" where
  "counting_Close n = (None, Suc n)"

definition stub_Open :: "nat \<Rightarrow> error option \<times> nat" where
  "stub_Open n = (None, n)"

section \<open>discord/command.go: the wire format and the JSON library\<close>

text \<open>
  The codec works on serialized JSON. A serialized value is represented by its syntax
  tree: the members of an object in the order they are written, the elements of an array
  in order. A number written as the decimal numeral of an integer, the way the encoder
  prints one, is \<open>JInt\<close>; any other number literal is kept as its text (\<open>JReal\<close>). A
  \<^verbatim>\<open>json.Raw\<close> blob is the tree of the bytes it holds, so that "the same bytes" reads "the
  same tree". The objects on the wire have distinct member
  names, spelled as in the struct tags; \<open>map_of\<close> looks a member up by its name.
\<close>

datatype json =
    JNull
  | JBool bool
  | JInt int
  | JReal string
  | JStr string
  | JArr "json list"
  | JObj "(string \<times> json) list"

text \<open>
  The identifier types (\<^verbatim>\<open>CommandID\<close>, \<^verbatim>\<open>AppID\<close>, \<^verbatim>\<open>GuildID\<close>, \<^verbatim>\<open>UserID\<close>, \<^verbatim>\<open>ChannelID\<close>,
  \<^verbatim>\<open>RoleID\<close>, \<^verbatim>\<open>Snowflake\<close>) are 64-bit unsigned integers with marshalers of their own, declared
  in another file. \<^verbatim>\<open>uint\<close> and \<^verbatim>\<open>int\<close> are taken at 64 bits. A \<^verbatim>\<open>float64\<close> is its 64 bits; no
  arithmetic is done on it.
\<close>

type_synonym Snowflake = "64 word"
type_synonym float64 = "64 word"
type_synonym CommandOptionType = "64 word"
type_synonym CommandType = "64 word"

text \<open>
  Modelled from the spec: \<^verbatim>\<open>ChannelType\<close> is declared in another file; a channel kind is an
  unsigned integer, whose width is left open.
\<close>

type_synonym ChannelType = nat

definition ChatInputCommand :: CommandType where "ChatInputCommand = 1"
definition UserCommand :: CommandType where "UserCommand = 2"
definition MessageCommand :: CommandType where "MessageCommand = 3"

definition SubcommandOptionType :: CommandOptionType where "SubcommandOptionType = 1"
definition SubcommandGroupOptionType :: CommandOptionType where "SubcommandGroupOptionType = 2"
definition StringOptionType :: CommandOptionType where "StringOptionType = 3"
definition IntegerOptionType :: CommandOptionType where "IntegerOptionType = 4"
definition BooleanOptionType :: CommandOptionType where "BooleanOptionType = 5"
definition UserOptionType :: CommandOptionType where "UserOptionType = 6"
definition ChannelOptionType :: CommandOptionType where "ChannelOptionType = 7"
definition RoleOptionType :: CommandOptionType where "RoleOptionType = 8"
definition MentionableOptionType :: CommandOptionType where "MentionableOptionType = 9"
definition NumberOptionType :: CommandOptionType where "NumberOptionType = 10"
definition maxOptionType :: CommandOptionType where "maxOptionType = 11"

subsection \<open>The option structs\<close>

text \<open>
  The eight choice structs are a \<^verbatim>\<open>Name\<close> and a \<^verbatim>\<open>Value\<close> of the kind of their option. The
  option structs list \<^verbatim>\<open>OptionName\<close>, \<^verbatim>\<open>Description\<close>, \<^verbatim>\<open>Required\<close> and then their own fields,
  in the order of the source.

  A slice is either nil (\<open>None\<close>) or holds a list of elements (\<open>Some xs\<close>; \<open>Some []\<close> is the
  empty slice that is not nil). \<open>len\<close> is \<^verbatim>\<open>len\<close>, and \<open>elems\<close> are the elements a \<^verbatim>\<open>range\<close>
  loop visits.
\<close>

type_synonym 'a slice = "'a list option"

definition len :: "'a slice \<Rightarrow> nat" where
  "len s = (case s of None \<Rightarrow> 0 | Some xs \<Rightarrow> length xs)"

definition elems :: "'a slice \<Rightarrow> 'a list" where
  "elems s = (case s of None \<Rightarrow> [] | Some xs \<Rightarrow> xs)"

datatype 'v Choice = Choice string 'v

fun Choice_Value :: "'v Choice \<Rightarrow> 'v" where
  "Choice_Value (Choice n v) = v"

datatype StringOption = StringOption string string bool "string Choice slice" bool
datatype IntegerOption = IntegerOption string string bool "64 word Choice slice"
datatype BooleanOption = BooleanOption string string bool "bool Choice slice"
datatype UserOption = UserOption string string bool "Snowflake Choice slice"
datatype ChannelOption =
  ChannelOption string string bool "Snowflake Choice slice" "ChannelType slice"
datatype RoleOption = RoleOption string string bool "Snowflake Choice slice"
datatype MentionableOption = MentionableOption string string bool "Snowflake Choice slice"
datatype NumberOption = NumberOption string string bool "float64 Choice slice"

text \<open>
  \<^verbatim>\<open>UnknownCommandOption\<close> has the exported fields \<^verbatim>\<open>OptionName\<close> and \<^verbatim>\<open>OptionType\<close> and the
  unexported \<^verbatim>\<open>raw\<close> (\<open>None\<close>: nil) and \<^verbatim>\<open>data\<close>. The first three are this datatype. \<^verbatim>\<open>data\<close>
  is kept beside it: a decoded \<^verbatim>\<open>UnknownCommandOption\<close> is the pair of the three fields and
  \<^verbatim>\<open>data\<close>, and where the source sets \<^verbatim>\<open>u.data = u\<close> the second component is the unknown
  variant holding the first.
\<close>

datatype UnknownCommandOption =
  UnknownCommandOption (OptionName: string) (OptionType: CommandOptionType) (raw: "json option")

text \<open>
  \<^verbatim>\<open>CommandOptionValue\<close> is the interface of the types with the method \<^verbatim>\<open>_val\<close>: the eight
  value options and \<^verbatim>\<open>UnknownCommandOption\<close>. \<^verbatim>\<open>CommandOption\<close> is the interface of all eleven.
  An element of \<^verbatim>\<open>[]*SubcommandOption\<close> may be the nil pointer (\<open>None\<close>).
\<close>

datatype CommandOptionValue =
    StringValue StringOption
  | IntegerValue IntegerOption
  | BooleanValue BooleanOption
  | UserValue UserOption
  | ChannelValue ChannelOption
  | RoleValue RoleOption
  | MentionableValue MentionableOption
  | NumberValue NumberOption
  | UnknownValue UnknownCommandOption

datatype SubcommandOption = SubcommandOption string string bool "CommandOptionValue slice"

datatype SubcommandGroupOption =
  SubcommandGroupOption string string bool "SubcommandOption option slice"

datatype CommandOption =
    Subcommand SubcommandOption
  | SubcommandGroup SubcommandGroupOption
  | Value CommandOptionValue

record Command =
  ID :: Snowflake
  Type :: CommandType
  AppID :: Snowflake
  GuildID :: Snowflake
  Name :: string
  Description :: string
  Options :: "CommandOption slice"
  NoDefaultPermission :: bool
  Version :: Snowflake

text \<open>The methods \<^verbatim>\<open>Name\<close> and \<^verbatim>\<open>Type\<close> of the interface \<^verbatim>\<open>CommandOption\<close>.\<close>

fun CommandOptionValue_Name :: "CommandOptionValue \<Rightarrow> string" where
  "CommandOptionValue_Name (StringValue (StringOption n d r cs a)) = n"
| "CommandOptionValue_Name (IntegerValue (IntegerOption n d r cs)) = n"
| "CommandOptionValue_Name (BooleanValue (BooleanOption n d r cs)) = n"
| "CommandOptionValue_Name (UserValue (UserOption n d r cs)) = n"
| "CommandOptionValue_Name (ChannelValue (ChannelOption n d r cs ts)) = n"
| "CommandOptionValue_Name (RoleValue (RoleOption n d r cs)) = n"
| "CommandOptionValue_Name (MentionableValue (MentionableOption n d r cs)) = n"
| "CommandOptionValue_Name (NumberValue (NumberOption n d r cs)) = n"
| "CommandOptionValue_Name (UnknownValue u) = OptionName u"

fun CommandOptionValue_Type :: "CommandOptionValue \<Rightarrow> CommandOptionType" where
  "CommandOptionValue_Type (StringValue s) = StringOptionType"
| "CommandOptionValue_Type (IntegerValue i) = IntegerOptionType"
| "CommandOptionValue_Type (BooleanValue b) = BooleanOptionType"
| "CommandOptionValue_Type (UserValue u) = UserOptionType"
| "CommandOptionValue_Type (ChannelValue c) = ChannelOptionType"
| "CommandOptionValue_Type (RoleValue r) = RoleOptionType"
| "CommandOptionValue_Type (MentionableValue m) = MentionableOptionType"
| "CommandOptionValue_Type (NumberValue n) = NumberOptionType"
| "CommandOptionValue_Type (UnknownValue u) = OptionType u"

fun CommandOption_Name :: "CommandOption \<Rightarrow> string" where
  "CommandOption_Name (Subcommand (SubcommandOption n d r opts)) = n"
| "CommandOption_Name (SubcommandGroup (SubcommandGroupOption n d r subs)) = n"
| "CommandOption_Name (Value v) = CommandOptionValue_Name v"

fun CommandOption_Type :: "CommandOption \<Rightarrow> CommandOptionType" where
  "CommandOption_Type (Subcommand s) = SubcommandOptionType"
| "CommandOption_Type (SubcommandGroup g) = SubcommandGroupOptionType"
| "CommandOption_Type (Value v) = CommandOptionValue_Type v"

subsection \<open>Errors of decoding\<close>

text \<open>
  \<open>UnmarshalTypeError\<close> is the JSON library's error for a value that does not fit the Go
  type named; \<open>Wrapped\<close> is \<^verbatim>\<open>errors.Wrap\<close>, \<open>Wrapf\<close> is \<^verbatim>\<open>errors.Wrapf\<close> and \<open>Errorf\<close> is
  \<^verbatim>\<open>fmt.Errorf\<close>, each with its format string and the number formatted by \<^verbatim>\<open>%d\<close>;
  \<open>commandTypeCheckError\<close> is the struct of the source with its fields \<^verbatim>\<open>name\<close>, \<^verbatim>\<open>got\<close> and
  \<^verbatim>\<open>expect\<close>. When several members of one object are ill-typed the library reports the
  first in the order of the text; here the first in the order of the struct's fields is
  reported.
\<close>

datatype decode_error =
    UnmarshalTypeError string
  | Wrapped string decode_error
  | Wrapf string nat decode_error
  | Errorf string nat
  | commandTypeCheckError string CommandOption string

fun commandTypeCheckError_Name :: "decode_error \<Rightarrow> string" where
  "commandTypeCheckError_Name (commandTypeCheckError name got expect) = name"
| "commandTypeCheckError_Name _ = []"

text \<open>
  The marshalers of the identifier types are declared in another file, and the printing
  and reading of a \<^verbatim>\<open>float64\<close> belongs to the JSON library. They are parameters of the
  codec: \<open>unmarshal_Snowflake\<close> reads an identifier field, \<open>unmarshal_Snowflake_string\<close> one
  tagged \<^verbatim>\<open>,string\<close>.
\<close>

record codec =
  marshal_Snowflake :: "Snowflake \<Rightarrow> json"
  unmarshal_Snowflake :: "json \<Rightarrow> decode_error + Snowflake"
  unmarshal_Snowflake_string :: "json \<Rightarrow> decode_error + Snowflake"
  marshal_float64 :: "float64 \<Rightarrow> json"
  unmarshal_float64 :: "json \<Rightarrow> decode_error + float64"

subsection \<open>What the JSON library does with a struct\<close>

text \<open>
  \<open>andThen\<close> goes on with the value of a step that returned no error. \<open>mapM\<close> decodes the
  elements of an array in order and stops at the first error.
\<close>

definition andThen :: "'e + 'a \<Rightarrow> ('a \<Rightarrow> 'e + 'b) \<Rightarrow> 'e + 'b" where
  "andThen m f = (case m of Inl e \<Rightarrow> Inl e | Inr x \<Rightarrow> f x)"

fun mapM :: "('a \<Rightarrow> 'e + 'b) \<Rightarrow> 'a list \<Rightarrow> 'e + 'b list" where
  "mapM f [] = Inr []"
| "mapM f (x # xs) =
     (case f x of
        Inl e \<Rightarrow> Inl e
      | Inr y \<Rightarrow> (case mapM f xs of Inl e \<Rightarrow> Inl e | Inr ys \<Rightarrow> Inr (y # ys)))"

text \<open>
  Decoding into a struct takes an object, or \<^verbatim>\<open>null\<close>, which leaves the struct as it is. The
  receivers of this file are fresh, so a member that is absent or \<^verbatim>\<open>null\<close> leaves the zero
  value in a field of a built-in type; a field whose type has an unmarshaler (the
  identifiers, \<^verbatim>\<open>CommandOptions\<close>) hands every present value, also \<^verbatim>\<open>null\<close>, to it. Decoding
  into a slice: \<^verbatim>\<open>null\<close> leaves the nil slice, an array gives a slice that is not nil, also
  when the array has no elements.
\<close>

definition members :: "json \<Rightarrow> decode_error + (string \<times> json) list" where
  "members b =
     (case b of
        JObj kvs \<Rightarrow> Inr kvs
      | JNull \<Rightarrow> Inr []
      | _ \<Rightarrow> Inl (UnmarshalTypeError ''object''))"

definition field ::
  "(string \<times> json) list \<Rightarrow> string \<Rightarrow> (json \<Rightarrow> decode_error + 'a) \<Rightarrow> 'a \<Rightarrow>
   decode_error + 'a" where
  "field kvs k dec zero = (case map_of kvs k of None \<Rightarrow> Inr zero | Some v \<Rightarrow> dec v)"

definition unmarshal_string :: "json \<Rightarrow> decode_error + string" where
  "unmarshal_string v =
     (case v of
        JStr s \<Rightarrow> Inr s
      | JNull \<Rightarrow> Inr []
      | _ \<Rightarrow> Inl (UnmarshalTypeError ''string''))"

definition unmarshal_bool :: "json \<Rightarrow> decode_error + bool" where
  "unmarshal_bool v =
     (case v of
        JBool x \<Rightarrow> Inr x
      | JNull \<Rightarrow> Inr False
      | _ \<Rightarrow> Inl (UnmarshalTypeError ''bool''))"

definition unmarshal_uint :: "json \<Rightarrow> decode_error + 64 word" where
  "unmarshal_uint v =
     (case v of
        JInt i \<Rightarrow>
          (if 0 \<le> i \<and> i < 2 ^ 64 then Inr (word_of_int i)
           else Inl (UnmarshalTypeError ''uint''))
      | JNull \<Rightarrow> Inr 0
      | _ \<Rightarrow> Inl (UnmarshalTypeError ''uint''))"

definition unmarshal_int :: "json \<Rightarrow> decode_error + 64 word" where
  "unmarshal_int v =
     (case v of
        JInt i \<Rightarrow>
          (if - (2 ^ 63) \<le> i \<and> i < 2 ^ 63 then Inr (word_of_int i)
           else Inl (UnmarshalTypeError ''int''))
      | JNull \<Rightarrow> Inr 0
      | _ \<Rightarrow> Inl (UnmarshalTypeError ''int''))"

definition unmarshal_ChannelType :: "json \<Rightarrow> decode_error + ChannelType" where
  "unmarshal_ChannelType v =
     (case v of
        JInt i \<Rightarrow> (if 0 \<le> i then Inr (nat i) else Inl (UnmarshalTypeError ''ChannelType''))
      | JNull \<Rightarrow> Inr 0
      | _ \<Rightarrow> Inl (UnmarshalTypeError ''ChannelType''))"

definition unmarshal_slice ::
  "(json \<Rightarrow> decode_error + 'a) \<Rightarrow> json \<Rightarrow> decode_error + 'a slice" where
  "unmarshal_slice dec v =
     (case v of
        JArr es \<Rightarrow> andThen (mapM dec es) (\<lambda>xs. Inr (Some xs))
      | JNull \<Rightarrow> Inr None
      | _ \<Rightarrow> Inl (UnmarshalTypeError ''slice''))"

text \<open>
  The slice member \<open>k\<close> with its elements still serialized: each element is handed to the
  unmarshaler of the slice's element type.
\<close>

definition raw_elems :: "(string \<times> json) list \<Rightarrow> string \<Rightarrow> decode_error + json slice" where
  "raw_elems kvs k = field kvs k (unmarshal_slice Inr) None"

text \<open>
  Encoding: an integer prints as an integer literal. A slice tagged \<^verbatim>\<open>omitempty\<close> is left
  out when its length is 0, nil or not; an integer tagged so when it is zero. A slice
  without the tag is written as \<^verbatim>\<open>null\<close> when it is nil and as an array otherwise.
\<close>

definition marshal_uint :: "64 word \<Rightarrow> json" where
  "marshal_uint x = JInt (uint x)"

definition marshal_int :: "64 word \<Rightarrow> json" where
  "marshal_int v = JInt (sint v)"

definition marshal_ChannelType :: "ChannelType \<Rightarrow> json" where
  "marshal_ChannelType t = JInt (int t)"

definition omitempty :: "string \<Rightarrow> ('a \<Rightarrow> json) \<Rightarrow> 'a slice \<Rightarrow> (string \<times> json) list" where
  "omitempty k enc s = (if len s = 0 then [] else [(k, JArr (map enc (elems s)))])"

definition marshal_slice :: "('a \<Rightarrow> json) \<Rightarrow> 'a slice \<Rightarrow> json" where
  "marshal_slice enc s = (case s of None \<Rightarrow> JNull | Some xs \<Rightarrow> JArr (map enc xs))"

definition omitempty_uint ::
  "string \<Rightarrow> (64 word \<Rightarrow> json) \<Rightarrow> 64 word \<Rightarrow> (string \<times> json) list" where
  "omitempty_uint k enc x = (if x = 0 then [] else [(k, enc x)])"

subsection \<open>Decoding the options\<close>

text \<open>
  The value options and the choices have no unmarshaler of their own: the library fills
  their fields from the members named by the struct tags and ignores the other members.
\<close>

definition unmarshal_Choice ::
  "(json \<Rightarrow> decode_error + 'v) \<Rightarrow> 'v \<Rightarrow> json \<Rightarrow> decode_error + 'v Choice" where
  "unmarshal_Choice dec zero b =
     andThen (members b) (\<lambda>kvs.
     andThen (field kvs ''name'' unmarshal_string []) (\<lambda>n.
     andThen (field kvs ''value'' dec zero) (\<lambda>v.
     Inr (Choice n v))))"

definition unmarshal_choices ::
  "(json \<Rightarrow> decode_error + 'v) \<Rightarrow> 'v \<Rightarrow> (string \<times> json) list \<Rightarrow>
   decode_error + 'v Choice slice" where
  "unmarshal_choices dec zero kvs =
     field kvs ''choices'' (unmarshal_slice (unmarshal_Choice dec zero)) None"

definition unmarshal_StringOption :: "json \<Rightarrow> decode_error + StringOption" where
  "unmarshal_StringOption b =
     andThen (members b) (\<lambda>kvs.
     andThen (field kvs ''name'' unmarshal_string []) (\<lambda>n.
     andThen (field kvs ''description'' unmarshal_string []) (\<lambda>d.
     andThen (field kvs ''required'' unmarshal_bool False) (\<lambda>r.
     andThen (unmarshal_choices unmarshal_string [] kvs) (\<lambda>cs.
     andThen (field kvs ''autocomplete'' unmarshal_bool False) (\<lambda>a.
     Inr (StringOption n d r cs a)))))))"

definition unmarshal_IntegerOption :: "json \<Rightarrow> decode_error + IntegerOption" where
  "unmarshal_IntegerOption b =
     andThen (members b) (\<lambda>kvs.
     andThen (field kvs ''name'' unmarshal_string []) (\<lambda>n.
     andThen (field kvs ''description'' unmarshal_string []) (\<lambda>d.
     andThen (field kvs ''required'' unmarshal_bool False) (\<lambda>r.
     andThen (unmarshal_choices unmarshal_int 0 kvs) (\<lambda>cs.
     Inr (IntegerOption n d r cs))))))"

definition unmarshal_BooleanOption :: "json \<Rightarrow> decode_error + BooleanOption" where
  "unmarshal_BooleanOption b =
     andThen (members b) (\<lambda>kvs.
     andThen (field kvs ''name'' unmarshal_string []) (\<lambda>n.
     andThen (field kvs ''description'' unmarshal_string []) (\<lambda>d.
     andThen (field kvs ''required'' unmarshal_bool False) (\<lambda>r.
     andThen (unmarshal_choices unmarshal_bool False kvs) (\<lambda>cs.
     Inr (BooleanOption n d r cs))))))"

definition unmarshal_UserOption :: "codec \<Rightarrow> json \<Rightarrow> decode_error + UserOption" where
  "unmarshal_UserOption cd b =
     andThen (members b) (\<lambda>kvs.
     andThen (field kvs ''name'' unmarshal_string []) (\<lambda>n.
     andThen (field kvs ''description'' unmarshal_string []) (\<lambda>d.
     andThen (field kvs ''required'' unmarshal_bool False) (\<lambda>r.
     andThen (unmarshal_choices (unmarshal_Snowflake_string cd) 0 kvs) (\<lambda>cs.
     Inr (UserOption n d r cs))))))"

definition unmarshal_ChannelOption :: "codec \<Rightarrow> json \<Rightarrow> decode_error + ChannelOption" where
  "unmarshal_ChannelOption cd b =
     andThen (members b) (\<lambda>kvs.
     andThen (field kvs ''name'' unmarshal_string []) (\<lambda>n.
     andThen (field kvs ''description'' unmarshal_string []) (\<lambda>d.
     andThen (field kvs ''required'' unmarshal_bool False) (\<lambda>r.
     andThen (unmarshal_choices (unmarshal_Snowflake_string cd) 0 kvs) (\<lambda>cs.
     andThen (field kvs ''channel_types'' (unmarshal_slice unmarshal_ChannelType) None) (\<lambda>ts.
     Inr (ChannelOption n d r cs ts)))))))"

definition unmarshal_RoleOption :: "codec \<Rightarrow> json \<Rightarrow> decode_error + RoleOption" where
  "unmarshal_RoleOption cd b =
     andThen (members b) (\<lambda>kvs.
     andThen (field kvs ''name'' unmarshal_string []) (\<lambda>n.
     andThen (field kvs ''description'' unmarshal_string []) (\<lambda>d.
     andThen (field kvs ''required'' unmarshal_bool False) (\<lambda>r.
     andThen (unmarshal_choices (unmarshal_Snowflake_string cd) 0 kvs) (\<lambda>cs.
     Inr (RoleOption n d r cs))))))"

definition unmarshal_MentionableOption ::
  "codec \<Rightarrow> json \<Rightarrow> decode_error + MentionableOption" where
  "unmarshal_MentionableOption cd b =
     andThen (members b) (\<lambda>kvs.
     andThen (field kvs ''name'' unmarshal_string []) (\<lambda>n.
     andThen (field kvs ''description'' unmarshal_string []) (\<lambda>d.
     andThen (field kvs ''required'' unmarshal_bool False) (\<lambda>r.
     andThen (unmarshal_choices (unmarshal_Snowflake_string cd) 0 kvs) (\<lambda>cs.
     Inr (MentionableOption n d r cs))))))"

definition unmarshal_NumberOption :: "codec \<Rightarrow> json \<Rightarrow> decode_error + NumberOption" where
  "unmarshal_NumberOption cd b =
     andThen (members b) (\<lambda>kvs.
     andThen (field kvs ''name'' unmarshal_string []) (\<lambda>n.
     andThen (field kvs ''description'' unmarshal_string []) (\<lambda>d.
     andThen (field kvs ''required'' unmarshal_bool False) (\<lambda>r.
     andThen (unmarshal_choices (unmarshal_float64 cd) 0 kvs) (\<lambda>cs.
     Inr (NumberOption n d r cs))))))"

text \<open>
  The first step of \<^verbatim>\<open>UnknownCommandOption.UnmarshalJSON\<close>: the bytes are read into the
  method-less copy of the struct, which fills \<^verbatim>\<open>OptionName\<close> and \<^verbatim>\<open>OptionType\<close>.
\<close>

definition unmarshal_unknown :: "json \<Rightarrow> decode_error + string \<times> CommandOptionType" where
  "unmarshal_unknown b =
     andThen (members b) (\<lambda>kvs.
     andThen (field kvs ''name'' unmarshal_string []) (\<lambda>n.
     andThen (field kvs ''type'' unmarshal_uint 0) (\<lambda>t.
     Inr (n, t))))"

text \<open>
  Its last step, after the switch has made \<^verbatim>\<open>u.data\<close> point to a fresh struct of the
  variant: the bytes are read into that struct; \<open>r\<close> is the result, \<open>variant\<close> the arm of
  \<^verbatim>\<open>CommandOption\<close> the struct belongs to.
\<close>

definition unmarshal_data ::
  "UnknownCommandOption \<Rightarrow> ('a \<Rightarrow> CommandOption) \<Rightarrow> decode_error + 'a \<Rightarrow>
   decode_error + UnknownCommandOption \<times> CommandOption" where
  "unmarshal_data u variant r =
     (case r of
        Inl err \<Rightarrow> Inl (Wrapf ''failed to unmarshal type %d'' (unat (OptionType u)) err)
      | Inr x \<Rightarrow> Inr (u, variant x))"

text \<open>
  The loop at the end of \<^verbatim>\<open>SubcommandOption.UnmarshalJSON\<close>: each decoded option must assert
  to \<^verbatim>\<open>CommandOptionValue\<close>; the first that does not ends the decoding with the error. The
  result is the content of the slice that \<^verbatim>\<open>make\<close> has created before the loop, a slice that
  is never nil.
\<close>

fun type_check ::
  "(UnknownCommandOption \<times> CommandOption) list \<Rightarrow> decode_error + CommandOptionValue list" where
  "type_check [] = Inr []"
| "type_check ((opt, data) # opts) =
     (case data of
        Value ov \<Rightarrow>
          (case type_check opts of Inl err \<Rightarrow> Inl err | Inr ovs \<Rightarrow> Inr (ov # ovs))
      | _ \<Rightarrow> Inl (commandTypeCheckError (OptionName opt) data ''CommandOptionValue''))"

lemma andThen_cong [fundef_cong]:
  "m = m' \<Longrightarrow> (\<And>x. m' = Inr x \<Longrightarrow> f x = g x) \<Longrightarrow> andThen m f = andThen m' g"
  by (auto simp: andThen_def split: sum.splits)

lemma mapM_cong [fundef_cong]:
  "xs = ys \<Longrightarrow> (\<And>x. x \<in> set ys \<Longrightarrow> f x = g x) \<Longrightarrow> mapM f xs = mapM g ys"
  by (induction ys arbitrary: xs) (auto split: sum.splits)

lemma mapM_Inr [simp]: "mapM Inr xs = Inr xs"
  by (induction xs) auto

lemma size_map_of: "map_of kvs k = Some v \<Longrightarrow> size v < size (JObj kvs)"
  by (induction kvs) (auto split: if_splits)

lemma size_elem: "e \<in> set es \<Longrightarrow> size e < size (JArr es)"
  by (induction es) auto

lemma size_raw_elems:
  assumes "members b = Inr kvs" and "raw_elems kvs k = Inr es" and "e \<in> set (elems es)"
  shows "size e < size b"
proof -
  from assms(2) have "elems es = [] \<or> map_of kvs k = Some (JArr (elems es))"
    by (auto simp: raw_elems_def field_def unmarshal_slice_def elems_def andThen_def
        split: option.splits json.splits)
  with assms(3) have m: "map_of kvs k = Some (JArr (elems es))" by auto
  from assms(1) m have "b = JObj kvs"
    by (auto simp: members_def split: json.splits)
  with size_map_of [OF m] size_elem [OF assms(3)] show ?thesis by simp
qed

text \<open>
  \<^verbatim>\<open>UnknownCommandOption.UnmarshalJSON\<close>, \<^verbatim>\<open>SubcommandOption.UnmarshalJSON\<close> and the library's
  decoding of a \<^verbatim>\<open>SubcommandGroupOption\<close>, whose elements are pointers with the unmarshaler
  of \<^verbatim>\<open>SubcommandOption\<close> (\<^verbatim>\<open>null\<close> gives the nil pointer). They call each other on the
  elements of the \<^verbatim>\<open>options\<close> array, as deep as the text nests.
\<close>

function UnknownCommandOption_UnmarshalJSON ::
    "codec \<Rightarrow> json \<Rightarrow> decode_error + UnknownCommandOption \<times> CommandOption"
  and SubcommandOption_UnmarshalJSON :: "codec \<Rightarrow> json \<Rightarrow> decode_error + SubcommandOption"
  and unmarshal_SubcommandGroupOption ::
    "codec \<Rightarrow> json \<Rightarrow> decode_error + SubcommandGroupOption"
where
  "UnknownCommandOption_UnmarshalJSON cd b =
     (case unmarshal_unknown b of
        Inl err \<Rightarrow> Inl (Wrapped ''failed to unmarshal unknown'' err)
      | Inr (n, t) \<Rightarrow>
          (let u = UnknownCommandOption n t None in
           if t = SubcommandOptionType then
             unmarshal_data u Subcommand (SubcommandOption_UnmarshalJSON cd b)
           else if t = SubcommandGroupOptionType then
             unmarshal_data u SubcommandGroup (unmarshal_SubcommandGroupOption cd b)
           else if t = StringOptionType then
             unmarshal_data u (Value \<circ> StringValue) (unmarshal_StringOption b)
           else if t = IntegerOptionType then
             unmarshal_data u (Value \<circ> IntegerValue) (unmarshal_IntegerOption b)
           else if t = BooleanOptionType then
             unmarshal_data u (Value \<circ> BooleanValue) (unmarshal_BooleanOption b)
           else if t = UserOptionType then
             unmarshal_data u (Value \<circ> UserValue) (unmarshal_UserOption cd b)
           else if t = ChannelOptionType then
             unmarshal_data u (Value \<circ> ChannelValue) (unmarshal_ChannelOption cd b)
           else if t = RoleOptionType then
             unmarshal_data u (Value \<circ> RoleValue) (unmarshal_RoleOption cd b)
           else if t = MentionableOptionType then
             unmarshal_data u (Value \<circ> MentionableValue) (unmarshal_MentionableOption cd b)
           else if t = NumberOptionType then
             unmarshal_data u (Value \<circ> NumberValue) (unmarshal_NumberOption cd b)
           else
             (let u = UnknownCommandOption n t (Some b) in
              Inr (u, Value (UnknownValue u)))))"
| "SubcommandOption_UnmarshalJSON cd b =
     andThen (members b) (\<lambda>kvs.
     andThen (field kvs ''name'' unmarshal_string []) (\<lambda>n.
     andThen (field kvs ''description'' unmarshal_string []) (\<lambda>d.
     andThen (field kvs ''required'' unmarshal_bool False) (\<lambda>r.
     andThen (field kvs ''type'' unmarshal_uint 0) (\<lambda>t.
     andThen (raw_elems kvs ''options'') (\<lambda>es.
     andThen (mapM (UnknownCommandOption_UnmarshalJSON cd) (elems es)) (\<lambda>opts.
       if t \<noteq> SubcommandOptionType then
         Inl (Errorf ''unexpected (not SubcommandOption) type %d'' (unat SubcommandOptionType))
       else
         andThen (type_check opts) (\<lambda>ovs.
         Inr (SubcommandOption n d r (Some ovs))))))))))"
| "unmarshal_SubcommandGroupOption cd b =
     andThen (members b) (\<lambda>kvs.
     andThen (field kvs ''name'' unmarshal_string []) (\<lambda>n.
     andThen (field kvs ''description'' unmarshal_string []) (\<lambda>d.
     andThen (field kvs ''required'' unmarshal_bool False) (\<lambda>r.
     andThen (raw_elems kvs ''options'') (\<lambda>es.
     andThen (mapM (\<lambda>e. if e = JNull then Inr None
                         else andThen (SubcommandOption_UnmarshalJSON cd e)
                                (\<lambda>s. Inr (Some s))) (elems es)) (\<lambda>subs.
     Inr (SubcommandGroupOption n d r
            (case es of None \<Rightarrow> None | Some x \<Rightarrow> Some subs))))))))"
  by pat_completeness auto
termination
  apply (relation "measure (\<lambda>x. case x of
            Inl (cd, b) \<Rightarrow> 2 * size b + 1
          | Inr (Inl (cd, b)) \<Rightarrow> 2 * size b
          | Inr (Inr (cd, b)) \<Rightarrow> 2 * size b)")
  apply (auto dest: size_raw_elems)
  done

declare UnknownCommandOption_UnmarshalJSON.simps [simp del]
declare SubcommandOption_UnmarshalJSON.simps [simp del]
declare unmarshal_SubcommandGroupOption.simps [simp del]

text \<open>The accessors \<^verbatim>\<open>Raw\<close> and \<^verbatim>\<open>Data\<close> of a decoded \<^verbatim>\<open>UnknownCommandOption\<close>.\<close>

definition UnknownCommandOption_Raw ::
  "UnknownCommandOption \<times> CommandOption \<Rightarrow> json option" where
  "UnknownCommandOption_Raw u = raw (fst u)"

definition UnknownCommandOption_Data ::
  "UnknownCommandOption \<times> CommandOption \<Rightarrow> CommandOption" where
  "UnknownCommandOption_Data u = snd u"

text \<open>
  \<^verbatim>\<open>CommandOptions.UnmarshalJSON\<close>: the nil slice when nothing was decoded, a slice made by
  \<^verbatim>\<open>make\<close> otherwise.
\<close>

definition CommandOptions_UnmarshalJSON ::
  "codec \<Rightarrow> json \<Rightarrow> decode_error + CommandOption slice" where
  "CommandOptions_UnmarshalJSON cd b =
     andThen (unmarshal_slice (UnknownCommandOption_UnmarshalJSON cd) b) (\<lambda>unknowns.
       if len unknowns = 0 then Inr None
       else Inr (Some (map UnknownCommandOption_Data (elems unknowns))))"

subsection \<open>Encoding the options\<close>

text \<open>
  Each generated \<^verbatim>\<open>MarshalJSON\<close> marshals a struct of the field \<^verbatim>\<open>Type\<close>, set to the constant
  of the variant, followed by the fields of the option. A string is written as it is,
  which is what the library does with valid UTF-8.
\<close>

definition marshal_base ::
  "CommandOptionType \<Rightarrow> string \<Rightarrow> string \<Rightarrow> bool \<Rightarrow> (string \<times> json) list" where
  "marshal_base t n d r =
     [(''type'', JInt (uint t)), (''name'', JStr n), (''description'', JStr d),
      (''required'', JBool r)]"

fun marshal_Choice :: "('v \<Rightarrow> json) \<Rightarrow> 'v Choice \<Rightarrow> json" where
  "marshal_Choice enc (Choice n v) = JObj [(''name'', JStr n), (''value'', enc v)]"

fun StringOption_MarshalJSON :: "StringOption \<Rightarrow> json" where
  "StringOption_MarshalJSON (StringOption n d r cs a) =
     JObj (marshal_base StringOptionType n d r
           @ omitempty ''choices'' (marshal_Choice JStr) cs
           @ [(''autocomplete'', JBool a)])"

fun IntegerOption_MarshalJSON :: "IntegerOption \<Rightarrow> json" where
  "IntegerOption_MarshalJSON (IntegerOption n d r cs) =
     JObj (marshal_base IntegerOptionType n d r
           @ omitempty ''choices'' (marshal_Choice marshal_int) cs)"

fun BooleanOption_MarshalJSON :: "BooleanOption \<Rightarrow> json" where
  "BooleanOption_MarshalJSON (BooleanOption n d r cs) =
     JObj (marshal_base BooleanOptionType n d r
           @ omitempty ''choices'' (marshal_Choice JBool) cs)"

fun UserOption_MarshalJSON :: "codec \<Rightarrow> UserOption \<Rightarrow> json" where
  "UserOption_MarshalJSON cd (UserOption n d r cs) =
     JObj (marshal_base UserOptionType n d r
           @ omitempty ''choices'' (marshal_Choice (marshal_Snowflake cd)) cs)"

text \<open>
  Modelled from the spec: the source file ends after the marshaler of \<^verbatim>\<open>UserOption\<close>; the
  marshaler of \<^verbatim>\<open>ChannelOption\<close> is missing. "Each concrete variant injects its own fixed
  discriminant into the serialized object alongside its fields."
\<close>

fun ChannelOption_MarshalJSON :: "codec \<Rightarrow> ChannelOption \<Rightarrow> json" where
  "ChannelOption_MarshalJSON cd (ChannelOption n d r cs ts) =
     JObj (marshal_base ChannelOptionType n d r
           @ omitempty ''choices'' (marshal_Choice (marshal_Snowflake cd)) cs
           @ omitempty ''channel_types'' marshal_ChannelType ts)"

text \<open>
  Modelled from the spec: the marshaler of \<^verbatim>\<open>RoleOption\<close> is missing from the source file;
  it injects the discriminant alongside the fields, as the spec says of every variant.
\<close>

fun RoleOption_MarshalJSON :: "codec \<Rightarrow> RoleOption \<Rightarrow> json" where
  "RoleOption_MarshalJSON cd (RoleOption n d r cs) =
     JObj (marshal_base RoleOptionType n d r
           @ omitempty ''choices'' (marshal_Choice (marshal_Snowflake cd)) cs)"

text \<open>
  Modelled from the spec: the marshaler of \<^verbatim>\<open>MentionableOption\<close> is missing from the source
  file; it injects the discriminant alongside the fields, as the spec says of every variant.
\<close>

fun MentionableOption_MarshalJSON :: "codec \<Rightarrow> MentionableOption \<Rightarrow> json" where
  "MentionableOption_MarshalJSON cd (MentionableOption n d r cs) =
     JObj (marshal_base MentionableOptionType n d r
           @ omitempty ''choices'' (marshal_Choice (marshal_Snowflake cd)) cs)"

text \<open>
  Modelled from the spec: the marshaler of \<^verbatim>\<open>NumberOption\<close> is missing from the source file;
  it injects the discriminant alongside the fields, as the spec says of every variant.
\<close>

fun NumberOption_MarshalJSON :: "codec \<Rightarrow> NumberOption \<Rightarrow> json" where
  "NumberOption_MarshalJSON cd (NumberOption n d r cs) =
     JObj (marshal_base NumberOptionType n d r
           @ omitempty ''choices'' (marshal_Choice (marshal_float64 cd)) cs)"

text \<open>
  \<^verbatim>\<open>UnknownCommandOption\<close> has no \<^verbatim>\<open>MarshalJSON\<close>: the library marshals its exported fields,
  \<^verbatim>\<open>OptionName\<close> as \<^verbatim>\<open>name\<close> and \<^verbatim>\<open>OptionType\<close> as \<^verbatim>\<open>type\<close>, and skips the unexported \<^verbatim>\<open>raw\<close> and
  \<^verbatim>\<open>data\<close>.
\<close>

fun marshal_UnknownCommandOption :: "UnknownCommandOption \<Rightarrow> json" where
  "marshal_UnknownCommandOption (UnknownCommandOption n t rw) =
     JObj [(''name'', JStr n), (''type'', marshal_uint t)]"

text \<open>
  Marshaling an interface value marshals the struct it points to. The \<^verbatim>\<open>options\<close> of a
  subcommand and of a group have no \<^verbatim>\<open>omitempty\<close>: a nil slice is written as \<^verbatim>\<open>null\<close>.
\<close>

fun marshal_CommandOptionValue :: "codec \<Rightarrow> CommandOptionValue \<Rightarrow> json" where
  "marshal_CommandOptionValue cd (StringValue s) = StringOption_MarshalJSON s"
| "marshal_CommandOptionValue cd (IntegerValue i) = IntegerOption_MarshalJSON i"
| "marshal_CommandOptionValue cd (BooleanValue b) = BooleanOption_MarshalJSON b"
| "marshal_CommandOptionValue cd (UserValue u) = UserOption_MarshalJSON cd u"
| "marshal_CommandOptionValue cd (ChannelValue c) = ChannelOption_MarshalJSON cd c"
| "marshal_CommandOptionValue cd (RoleValue r) = RoleOption_MarshalJSON cd r"
| "marshal_CommandOptionValue cd (MentionableValue m) = MentionableOption_MarshalJSON cd m"
| "marshal_CommandOptionValue cd (NumberValue n) = NumberOption_MarshalJSON cd n"
| "marshal_CommandOptionValue cd (UnknownValue u) = marshal_UnknownCommandOption u"

fun SubcommandOption_MarshalJSON :: "codec \<Rightarrow> SubcommandOption \<Rightarrow> json" where
  "SubcommandOption_MarshalJSON cd (SubcommandOption n d r opts) =
     JObj (marshal_base SubcommandOptionType n d r
           @ [(''options'', marshal_slice (marshal_CommandOptionValue cd) opts)])"

definition marshal_SubcommandOption_ptr :: "codec \<Rightarrow> SubcommandOption option \<Rightarrow> json" where
  "marshal_SubcommandOption_ptr cd p =
     (case p of None \<Rightarrow> JNull | Some s \<Rightarrow> SubcommandOption_MarshalJSON cd s)"

fun SubcommandGroupOption_MarshalJSON :: "codec \<Rightarrow> SubcommandGroupOption \<Rightarrow> json" where
  "SubcommandGroupOption_MarshalJSON cd (SubcommandGroupOption n d r subs) =
     JObj (marshal_base SubcommandGroupOptionType n d r
           @ [(''options'', marshal_slice (marshal_SubcommandOption_ptr cd) subs)])"

fun marshal_CommandOption :: "codec \<Rightarrow> CommandOption \<Rightarrow> json" where
  "marshal_CommandOption cd (Subcommand s) = SubcommandOption_MarshalJSON cd s"
| "marshal_CommandOption cd (SubcommandGroup g) = SubcommandGroupOption_MarshalJSON cd g"
| "marshal_CommandOption cd (Value v) = marshal_CommandOptionValue cd v"

subsection \<open>Command\<close>

text \<open>
  \<^verbatim>\<open>Command.MarshalJSON\<close> marshals the fields of the command, then \<^verbatim>\<open>default_permission\<close>.
  \<^verbatim>\<open>Command.UnmarshalJSON\<close> reads both into a fresh command, flips the flag and defaults the
  type.
\<close>

definition Command_MarshalJSON :: "codec \<Rightarrow> Command \<Rightarrow> json" where
  "Command_MarshalJSON cd c =
     (let DefaultPermission = \<not> NoDefaultPermission c in
      JObj ([(''id'', marshal_Snowflake cd (ID c))]
            @ omitempty_uint ''type'' marshal_uint (Type c)
            @ [(''application_id'', marshal_Snowflake cd (AppID c))]
            @ omitempty_uint ''guild_id'' (marshal_Snowflake cd) (GuildID c)
            @ [(''name'', JStr (Name c)), (''description'', JStr (Description c))]
            @ omitempty ''options'' (marshal_CommandOption cd) (Options c)
            @ omitempty_uint ''version'' (marshal_Snowflake cd) (Version c)
            @ [(''default_permission'', JBool DefaultPermission)]))"

definition Command_UnmarshalJSON :: "codec \<Rightarrow> json \<Rightarrow> decode_error + Command" where
  "Command_UnmarshalJSON cd data =
     andThen (members data) (\<lambda>kvs.
     andThen (field kvs ''id'' (unmarshal_Snowflake cd) 0) (\<lambda>id.
     andThen (field kvs ''type'' unmarshal_uint 0) (\<lambda>t.
     andThen (field kvs ''application_id'' (unmarshal_Snowflake cd) 0) (\<lambda>app.
     andThen (field kvs ''guild_id'' (unmarshal_Snowflake cd) 0) (\<lambda>guild.
     andThen (field kvs ''name'' unmarshal_string []) (\<lambda>n.
     andThen (field kvs ''description'' unmarshal_string []) (\<lambda>d.
     andThen (field kvs ''options'' (CommandOptions_UnmarshalJSON cd) None) (\<lambda>opts.
     andThen (field kvs ''version'' (unmarshal_Snowflake cd) 0) (\<lambda>ver.
     andThen (field kvs ''default_permission'' unmarshal_bool False) (\<lambda>DefaultPermission.
       (let c = \<lparr>ID = id, Type = t, AppID = app, GuildID = guild, Name = n, Description = d,
                  Options = opts, NoDefaultPermission = False, Version = ver\<rparr>;
            c = c\<lparr>NoDefaultPermission := \<not> DefaultPermission\<rparr>;
            c = (if Type c = 0 then c\<lparr>Type := ChatInputCommand\<rparr> else c)
        in Inr c)))))))))))"

text \<open>
  A stub of the codec's parameters, for the examples: identifiers and numbers are written
  as integer literals.
\<close>

definition stub_codec :: codec where
  "stub_codec =
     \<lparr>marshal_Snowflake = marshal_uint,
      unmarshal_Snowflake = unmarshal_uint,
      unmarshal_Snowflake_string = unmarshal_uint,
      marshal_float64 = marshal_uint,
      unmarshal_float64 = unmarshal_uint\<rparr>"

subsection \<open>Wire objects and trees that the statements speak of\<close>

text \<open>
  \<open>member b k\<close> is the member \<open>k\<close> of the object \<open>b\<close>, and \<open>without k kvs\<close> is the object
  with the member \<open>k\<close> taken out.
\<close>

definition member :: "json \<Rightarrow> string \<Rightarrow> json option" where
  "member b k = (case b of JObj kvs \<Rightarrow> map_of kvs k | _ \<Rightarrow> None)"

definition without :: "string \<Rightarrow> (string \<times> json) list \<Rightarrow> (string \<times> json) list" where
  "without k kvs = filter (\<lambda>(k', v). k' \<noteq> k) kvs"

text \<open>
  \<open>lacks_val\<close>: the type of the decoded option has no method \<^verbatim>\<open>_val\<close>, so the assertion to
  \<^verbatim>\<open>CommandOptionValue\<close> fails. \<open>the_value\<close> is the asserted value where it succeeds.
\<close>

fun lacks_val :: "CommandOption \<Rightarrow> bool" where
  "lacks_val (Value v) = False"
| "lacks_val opt = True"

fun the_value :: "CommandOption \<Rightarrow> CommandOptionValue" where
  "the_value (Value v) = v"
| "the_value opt = UnknownValue (UnknownCommandOption [] 0 None)"

text \<open>
  A tree is \<open>known\<close> when it is built from the ten known variants: no option in it is
  the unknown variant. The codec \<open>reads_back\<close> a tree when its parameters, the marshalers of
  the identifiers and of \<^verbatim>\<open>float64\<close>, read the identifiers and numbers of the tree's choices
  as they wrote them.
\<close>

definition reads_back_choices ::
  "(json \<Rightarrow> decode_error + 'v) \<Rightarrow> ('v \<Rightarrow> json) \<Rightarrow> 'v Choice slice \<Rightarrow> bool" where
  "reads_back_choices dec enc cs =
     list_all (\<lambda>c. dec (enc (Choice_Value c)) = Inr (Choice_Value c)) (elems cs)"

fun known_value :: "CommandOptionValue \<Rightarrow> bool" where
  "known_value (UnknownValue u) = False"
| "known_value v = True"

fun reads_back_value :: "codec \<Rightarrow> CommandOptionValue \<Rightarrow> bool" where
  "reads_back_value cd (UserValue (UserOption n d r cs)) =
     reads_back_choices (unmarshal_Snowflake_string cd) (marshal_Snowflake cd) cs"
| "reads_back_value cd (ChannelValue (ChannelOption n d r cs ts)) =
     reads_back_choices (unmarshal_Snowflake_string cd) (marshal_Snowflake cd) cs"
| "reads_back_value cd (RoleValue (RoleOption n d r cs)) =
     reads_back_choices (unmarshal_Snowflake_string cd) (marshal_Snowflake cd) cs"
| "reads_back_value cd (MentionableValue (MentionableOption n d r cs)) =
     reads_back_choices (unmarshal_Snowflake_string cd) (marshal_Snowflake cd) cs"
| "reads_back_value cd (NumberValue (NumberOption n d r cs)) =
     reads_back_choices (unmarshal_float64 cd) (marshal_float64 cd) cs"
| "reads_back_value cd v = True"

fun known_subcommand :: "SubcommandOption \<Rightarrow> bool" where
  "known_subcommand (SubcommandOption n d r opts) = list_all known_value (elems opts)"

fun known :: "CommandOption \<Rightarrow> bool" where
  "known (Subcommand s) = known_subcommand s"
| "known (SubcommandGroup (SubcommandGroupOption n d r subs)) =
     list_all (\<lambda>p. case p of None \<Rightarrow> True | Some s \<Rightarrow> known_subcommand s) (elems subs)"
| "known (Value v) = known_value v"

fun reads_back_subcommand :: "codec \<Rightarrow> SubcommandOption \<Rightarrow> bool" where
  "reads_back_subcommand cd (SubcommandOption n d r opts) =
     list_all (reads_back_value cd) (elems opts)"

fun reads_back :: "codec \<Rightarrow> CommandOption \<Rightarrow> bool" where
  "reads_back cd (Subcommand s) = reads_back_subcommand cd s"
| "reads_back cd (SubcommandGroup (SubcommandGroupOption n d r subs)) =
     list_all (\<lambda>p. case p of None \<Rightarrow> True | Some s \<Rightarrow> reads_back_subcommand cd s)
       (elems subs)"
| "reads_back cd (Value v) = reads_back_value cd v"

text \<open>
  What decoding makes of the slices of an encoded tree. A slice tagged \<^verbatim>\<open>omitempty\<close> (the
  choices and the channel kinds of a value option) comes back nil when its length is 0,
  since it was not written. The options of a subcommand come back as the slice that
  \<^verbatim>\<open>make\<close> created, which is not nil. The slice of a group's subcommands comes back nil
  when it was nil, and with the same nil pointers. A tree is \<open>canonical\<close> when this leaves
  it as it is: no value option in it holds an empty slice that is not nil, and no
  subcommand in it holds the nil slice.
\<close>

definition canon_slice :: "'a slice \<Rightarrow> 'a slice" where
  "canon_slice s = (if len s = 0 then None else s)"

fun canon_value :: "CommandOptionValue \<Rightarrow> CommandOptionValue" where
  "canon_value (StringValue (StringOption n d r cs a)) =
     StringValue (StringOption n d r (canon_slice cs) a)"
| "canon_value (IntegerValue (IntegerOption n d r cs)) =
     IntegerValue (IntegerOption n d r (canon_slice cs))"
| "canon_value (BooleanValue (BooleanOption n d r cs)) =
     BooleanValue (BooleanOption n d r (canon_slice cs))"
| "canon_value (UserValue (UserOption n d r cs)) =
     UserValue (UserOption n d r (canon_slice cs))"
| "canon_value (ChannelValue (ChannelOption n d r cs ts)) =
     ChannelValue (ChannelOption n d r (canon_slice cs) (canon_slice ts))"
| "canon_value (RoleValue (RoleOption n d r cs)) =
     RoleValue (RoleOption n d r (canon_slice cs))"
| "canon_value (MentionableValue (MentionableOption n d r cs)) =
     MentionableValue (MentionableOption n d r (canon_slice cs))"
| "canon_value (NumberValue (NumberOption n d r cs)) =
     NumberValue (NumberOption n d r (canon_slice cs))"
| "canon_value (UnknownValue u) = UnknownValue u"

fun canon_subcommand :: "SubcommandOption \<Rightarrow> SubcommandOption" where
  "canon_subcommand (SubcommandOption n d r opts) =
     SubcommandOption n d r (Some (map canon_value (elems opts)))"

fun canon :: "CommandOption \<Rightarrow> CommandOption" where
  "canon (Subcommand s) = Subcommand (canon_subcommand s)"
| "canon (SubcommandGroup (SubcommandGroupOption n d r subs)) =
     SubcommandGroup (SubcommandGroupOption n d r
       (map_option (map (map_option canon_subcommand)) subs))"
| "canon (Value v) = Value (canon_value v)"

definition canonical :: "CommandOption \<Rightarrow> bool" where
  "canonical opt = (canon opt = opt)"

text \<open>
  The encoders write a string as it is, which is what the JSON library does with valid
  UTF-8 (it replaces a byte that is not part of a well-formed sequence). \<open>utf8\<close> reads
  the bytes of a string: \<open>k\<close> continuation bytes are still due, the next of them between
  \<open>lo\<close> and \<open>hi\<close>. \<open>strings_of\<close> lists the strings of a tree.
\<close>

fun utf8 :: "nat \<Rightarrow> nat \<Rightarrow> nat \<Rightarrow> nat list \<Rightarrow> bool" where
  "utf8 k lo hi [] = (k = 0)"
| "utf8 0 lo hi (b # bs) =
     (if b < 128 then utf8 0 128 191 bs
      else if 194 \<le> b \<and> b \<le> 223 then utf8 1 128 191 bs
      else if b = 224 then utf8 2 160 191 bs
      else if (225 \<le> b \<and> b \<le> 236) \<or> b = 238 \<or> b = 239 then utf8 2 128 191 bs
      else if b = 237 then utf8 2 128 159 bs
      else if b = 240 then utf8 3 144 191 bs
      else if 241 \<le> b \<and> b \<le> 243 then utf8 3 128 191 bs
      else if b = 244 then utf8 3 128 143 bs
      else False)"
| "utf8 (Suc k) lo hi (b # bs) = (lo \<le> b \<and> b \<le> hi \<and> utf8 k 128 191 bs)"

definition valid_utf8 :: "string \<Rightarrow> bool" where
  "valid_utf8 s = utf8 0 128 191 (map of_char s)"

fun Choice_Name :: "'v Choice \<Rightarrow> string" where
  "Choice_Name (Choice n v) = n"

definition choice_names :: "'v Choice slice \<Rightarrow> string list" where
  "choice_names cs = map Choice_Name (elems cs)"

fun strings_of_value :: "CommandOptionValue \<Rightarrow> string list" where
  "strings_of_value (StringValue (StringOption n d r cs a)) =
     n # d # choice_names cs @ map Choice_Value (elems cs)"
| "strings_of_value (IntegerValue (IntegerOption n d r cs)) = n # d # choice_names cs"
| "strings_of_value (BooleanValue (BooleanOption n d r cs)) = n # d # choice_names cs"
| "strings_of_value (UserValue (UserOption n d r cs)) = n # d # choice_names cs"
| "strings_of_value (ChannelValue (ChannelOption n d r cs ts)) = n # d # choice_names cs"
| "strings_of_value (RoleValue (RoleOption n d r cs)) = n # d # choice_names cs"
| "strings_of_value (MentionableValue (MentionableOption n d r cs)) = n # d # choice_names cs"
| "strings_of_value (NumberValue (NumberOption n d r cs)) = n # d # choice_names cs"
| "strings_of_value (UnknownValue u) = [OptionName u]"

fun strings_of_subcommand :: "SubcommandOption \<Rightarrow> string list" where
  "strings_of_subcommand (SubcommandOption n d r opts) =
     n # d # concat (map strings_of_value (elems opts))"

fun strings_of :: "CommandOption \<Rightarrow> string list" where
  "strings_of (Subcommand s) = strings_of_subcommand s"
| "strings_of (SubcommandGroup (SubcommandGroupOption n d r subs)) =
     n # d # concat (map (\<lambda>p. case p of None \<Rightarrow> [] | Some s \<Rightarrow> strings_of_subcommand s)
                       (elems subs))"
| "strings_of (Value v) = strings_of_value v"

text \<open>
  The same for a command: the codec reads back the identifiers that are written, and the
  options are known trees that the codec reads back.
\<close>

definition Command_reads_back :: "codec \<Rightarrow> Command \<Rightarrow> bool" where
  "Command_reads_back cd c =
     (unmarshal_Snowflake cd (marshal_Snowflake cd (ID c)) = Inr (ID c) \<and>
      unmarshal_Snowflake cd (marshal_Snowflake cd (AppID c)) = Inr (AppID c) \<and>
      (GuildID c \<noteq> 0 \<longrightarrow>
         unmarshal_Snowflake cd (marshal_Snowflake cd (GuildID c)) = Inr (GuildID c)) \<and>
      (Version c \<noteq> 0 \<longrightarrow>
         unmarshal_Snowflake cd (marshal_Snowflake cd (Version c)) = Inr (Version c)) \<and>
      list_all (\<lambda>opt. known opt \<and> reads_back cd opt) (elems (Options c)))"

text \<open>
  Examples: a group holding a subcommand of three value options and a nil pointer; a
  subcommand whose options are the nil slice, and a value option whose choices are an
  empty slice that is not nil; a command with the group as its option; a subcommand on the
  wire with a subcommand among its options, and one with a value option and an option of a
  discriminant not yet known.
\<close>

definition ex_tree :: CommandOption where
  "ex_tree = SubcommandGroup (SubcommandGroupOption ''g'' ''group'' False
     (Some [Some (SubcommandOption ''s'' ''sub'' False
        (Some [StringValue (StringOption ''a'' ''b'' True (Some [Choice ''x'' ''y'']) True),
               UserValue (UserOption ''u'' [] False (Some [Choice ''me'' 5])),
               IntegerValue (IntegerOption ''i'' [] False (Some [Choice ''neg'' (- 5)])),
               BooleanValue (BooleanOption ''b'' [] False None)])), None]))"

definition ex_nil_subcommand :: CommandOption where
  "ex_nil_subcommand = Subcommand (SubcommandOption ''s'' ''sub'' False None)"

definition ex_empty_choices :: CommandOption where
  "ex_empty_choices = Value (StringValue (StringOption ''a'' ''b'' True (Some []) False))"

definition ex_command :: Command where
  "ex_command =
     \<lparr>ID = 1, Type = 0, AppID = 2, GuildID = 0, Name = ''ping'', Description = ''pong'',
      Options = Some [ex_tree], NoDefaultPermission = True, Version = 0\<rparr>"

definition ex_bad_subcommand :: json where
  "ex_bad_subcommand =
     JObj [(''type'', JInt 1), (''name'', JStr ''outer''),
           (''options'', JArr [JObj [(''type'', JInt 3), (''name'', JStr ''ok'')],
                               JObj [(''type'', JInt 1), (''name'', JStr ''inner'')]])]"

definition ex_good_subcommand :: json where
  "ex_good_subcommand =
     JObj [(''type'', JInt 1), (''name'', JStr ''outer''),
           (''options'', JArr [JObj [(''type'', JInt 3), (''name'', JStr ''ok'')],
                               JObj [(''type'', JInt 12), (''name'', JStr ''new'')]])]"

section \<open>Transport connection: proofs\<close>

text \<open>
  C9 (the code at the failing input). When the library's dial fails it gives a nil handle
  and an error. \<open>Dial\<close> stores the nil handle and calls \<open>SetReadLimit\<close> on it before it looks
  at the error, so the call panics: the dial error is never returned and no read worker is
  started.
\<close>

theorem Dial_failed_dial_panics:
  "Dial (\<lambda>addr. (None, Some e)) SetReadLimit c addr = Panic"
  by (simp add: Dial_def)

lemma Dial_established:
  "websocket_Dial addr = (Some h, None) \<Longrightarrow>
   Dial websocket_Dial SetReadLimit c addr =
     Return (None, c\<lparr>Conn := Some (SetReadLimit h WSReadLimit), readLoops := Suc (readLoops c)\<rparr>)"
  by (simp add: Dial_def Let_def)

lemma Close_established:
  "Conn c = Some h \<Longrightarrow>
   Close websocket_Close c None = Return (websocket_Close h StatusNormalClosure []) \<and>
   Close websocket_Close c (Some e) =
     Return (websocket_Close h StatusProtocolError (take 125 (Error e)))"
  by (simp add: Close_def Let_def)

text \<open>
  A close frame is never longer than a control frame may be, and a reason has a close
  frame exactly when it is at most 123 bytes long.
\<close>

lemma close_frame_length:
  "close_frame code reason = Some p \<Longrightarrow>
   length p = 2 + length reason \<and> length p \<le> maxControlPayload"
  by (auto simp: close_frame_def maxCloseReason_def maxControlPayload_def split: if_splits)

lemma close_frame_fits:
  "close_frame code reason \<noteq> None \<longleftrightarrow> length reason \<le> 123"
  by (auto simp: close_frame_def maxCloseReason_def maxControlPayload_def)

text \<open>
  C5 (the code at the failing input). \<open>Close\<close> is called on an established connection with
  an error whose message is 200 bytes \<open>x\<close>. It cuts the message at 125 bytes, which is the
  limit of the whole payload of a control frame, and hands these 125 bytes to the handle's
  close as the reason, with the protocol error status. The payload of a close frame begins
  with the two bytes of the status, so a reason has room for 123 bytes: no close frame
  carries the reason that \<open>Close\<close> passes, the handle's close refuses it, and \<open>Close\<close> returns
  that error. So the call fails because the message was too long, and the connection is
  not closed with the protocol error status and the cut reason. A message of 123 bytes
  goes through.
\<close>

theorem Close_long_message_fails:
  "Close websocket_Close \<lparr>Conn = Some h, readLoops = n\<rparr>
     (Some (New (replicate 200 (CHR ''x'')))) =
     Return (websocket_Close h StatusProtocolError (replicate 125 (CHR ''x''))) \<and>
   maxCloseReason < length (replicate 125 (CHR ''x'')) \<and>
   close_frame StatusProtocolError (replicate 125 (CHR ''x'')) = None \<and>
   Close frame_Close \<lparr>Conn = Some h, readLoops = n\<rparr>
     (Some (New (replicate 200 (CHR ''x'')))) =
     Return (Some (New ''failed to marshal close frame: reason string max is 123'')) \<and>
   Close frame_Close \<lparr>Conn = Some h, readLoops = n\<rparr>
     (Some (New (replicate 123 (CHR ''x'')))) = Return None"
  by (simp add: Close_def Let_def frame_Close_def close_frame_def maxCloseReason_def
      maxControlPayload_def)

text \<open>
  C6. One turn of the read loop, by what \<open>readAll\<close> gave for the frame:
  a failure that is not a closure (\<open>CloseStatus\<close> is not above \<open>-1\<close>) sends one event with
  no payload and the error wrapped as "WS error", and the loop goes on with the next frame;
  a closure with a status other than the normal one sends one event with no payload and
  the error wrapped as "WS fatal", and the loop returns;
  a closure with the normal status sends nothing, and the loop returns;
  a payload sends one event with the payload and no error, and the loop goes on.
\<close>

theorem readLoop_frame:
  "(readAll zn ra frame = Inl err \<and> \<not> CloseStatus err > - 1 \<longrightarrow>
      readLoop CloseStatus zn ra (frame # frames) =
        (\<lparr>Data = None, Error_of = Some (Wrap ''WS error'' err)\<rparr>
           # fst (readLoop CloseStatus zn ra frames),
         snd (readLoop CloseStatus zn ra frames))) \<and>
   (readAll zn ra frame = Inl err \<and> CloseStatus err > - 1 \<and>
    CloseStatus err \<noteq> StatusNormalClosure \<longrightarrow>
      readLoop CloseStatus zn ra (frame # frames) =
        ([\<lparr>Data = None, Error_of = Some (Wrap ''WS fatal'' err)\<rparr>], True)) \<and>
   (readAll zn ra frame = Inl err \<and> CloseStatus err = StatusNormalClosure \<longrightarrow>
      readLoop CloseStatus zn ra (frame # frames) = ([], True)) \<and>
   (readAll zn ra frame = Inr b \<longrightarrow>
      readLoop CloseStatus zn ra (frame # frames) =
        (\<lparr>Data = Some b, Error_of = None\<rparr> # fst (readLoop CloseStatus zn ra frames),
         snd (readLoop CloseStatus zn ra frames)))"
  by (simp add: Let_def StatusNormalClosure_def split: prod.splits)

theorem readLoop_frame_witness:
  "readLoop stub_CloseStatus Inr Inr [(MessageText, [], Some (New ''timeout''))] =
     ([\<lparr>Data = None, Error_of = Some (Wrap ''WS error'' (New ''timeout''))\<rparr>], False) \<and>
   readLoop stub_CloseStatus Inr Inr
     [(MessageText, [], Some (New ''closed 1006'')), (MessageText, [1, 2], None)] =
     ([\<lparr>Data = None, Error_of = Some (Wrap ''WS fatal'' (New ''closed 1006''))\<rparr>], True) \<and>
   readLoop stub_CloseStatus Inr Inr
     [(MessageText, [], Some (New ''closed 1000'')), (MessageText, [1, 2], None)] =
     ([], True) \<and>
   readLoop stub_CloseStatus Inr Inr [(MessageBinary, [1, 2], None)] =
     ([\<lparr>Data = Some [1, 2], Error_of = None\<rparr>], False)"
  using
    readLoop_frame [of Inr Inr "(MessageText, [], Some (New ''timeout''))" "New ''timeout''"
      stub_CloseStatus "[]"]
    readLoop_frame [of Inr Inr "(MessageText, [], Some (New ''closed 1006''))"
      "New ''closed 1006''" stub_CloseStatus "[(MessageText, [1, 2], None)]"]
    readLoop_frame [of Inr Inr "(MessageText, [], Some (New ''closed 1000''))"
      "New ''closed 1000''" stub_CloseStatus "[(MessageText, [1, 2], None)]"]
    readLoop_frame [of Inr Inr "(MessageBinary, [1, 2], None)" _ stub_CloseStatus "[]" "[1, 2]"]
  by (simp add: readAll_def stub_CloseStatus_def StatusNormalClosure_def)

section \<open>Session lifecycle: proofs\<close>

lemma Session_Close_done:
  "wstop s \<Longrightarrow>
   Session_Close gc s = Return (fst (gc (Gateway s)), s\<lparr>Gateway := snd (gc (Gateway s))\<rparr>)"
  by (simp add: Session_Close_def split: prod.splits)

lemma Session_Close_first:
  "\<not> wstop s \<Longrightarrow> hstop s = OpenChan \<Longrightarrow>
   Session_Close gc s =
     Return (fst (gc (Gateway s)),
             s\<lparr>hstop := ClosedChan, wstop := True, Gateway := snd (gc (Gateway s))\<rparr>)"
  by (simp add: Session_Close_def close_chan_def split: prod.splits)

lemma Close_times_done:
  "wstop s \<Longrightarrow>
   Close_times gc n s =
     Return (map (\<lambda>i. fst (gc (((snd \<circ> gc) ^^ i) (Gateway s)))) [0..<n],
             s\<lparr>Gateway := ((snd \<circ> gc) ^^ n) (Gateway s)\<rparr>)"
proof (induction n arbitrary: s)
  case 0
  then show ?case by simp
next
  case (Suc n)
  let ?s1 = "s\<lparr>Gateway := snd (gc (Gateway s))\<rparr>"
  have w: "wstop ?s1" using Suc.prems by simp
  show ?case
    using Suc.prems Suc.IH [OF w]
    by (simp add: Session_Close_done map_upt_Suc funpow_Suc_right del: upt_Suc funpow.simps)
qed

text \<open>
  C3, as stated, fails. With a Gateway that counts its \<^verbatim>\<open>Close\<close> calls, a session is made,
  opened, and closed three times: no call fails and the stop signal is closed once, but the
  Gateway has received three \<^verbatim>\<open>Close\<close> calls, not one. Only the closing of the stop signal is
  under the one-shot guard.
\<close>

theorem Close_thrice_counterexample:
  "Close_times counting_Close 3 (snd (Session_Open stub_Open (NewWithGateway 0))) =
     Return ([None, None, None], \<lparr>hstop = ClosedChan, wstop = True, Gateway = 3\<rparr>) \<and>
   Gateway \<lparr>hstop = ClosedChan, wstop = True, Gateway = (3::nat)\<rparr> \<noteq> 1"
  by (simp add: eval_nat_numeral Session_Open_def stub_Open_def NewWithGateway_def Reset_def
      Session_Close_def close_chan_def counting_Close_def)

text \<open>
  C3, amended. After \<open>Open\<close> has reset the lifecycle state, \<open>n\<close> calls of \<open>Close\<close> in a row
  never panic; the stop signal is closed by the first call and left alone by the later
  ones (the one-shot guard has fired); every call calls the Gateway's \<^verbatim>\<open>Close\<close>, so the
  Gateway receives \<open>n\<close> calls, and every call returns what the Gateway's \<^verbatim>\<open>Close\<close> returned
  to it.
\<close>

theorem Close_after_Open:
  "Close_times gc n (Reset s) =
     Return (map (\<lambda>i. fst (gc (((snd \<circ> gc) ^^ i) (Gateway s)))) [0..<n],
             s\<lparr>hstop := (if n = 0 then OpenChan else ClosedChan), wstop := (n \<noteq> 0),
               Gateway := ((snd \<circ> gc) ^^ n) (Gateway s)\<rparr>)"
proof (cases n)
  case 0
  then show ?thesis by (simp add: Reset_def)
next
  case (Suc m)
  let ?s1 = "(Reset s)\<lparr>hstop := ClosedChan, wstop := True, Gateway := snd (gc (Gateway s))\<rparr>"
  have w: "wstop ?s1" by simp
  show ?thesis
    using Close_times_done [OF w, of gc m]
    by (simp add: Suc Session_Close_first Reset_def map_upt_Suc funpow_Suc_right
        del: upt_Suc funpow.simps)
qed

theorem Close_after_Open_witness:
  "Close_times counting_Close 3 (Reset (NewWithGateway 0)) =
     Return ([None, None, None], \<lparr>hstop = ClosedChan, wstop = True, Gateway = 3\<rparr>)"
  using Close_after_Open [of counting_Close 3 "NewWithGateway 0"]
  by (simp add: eval_nat_numeral NewWithGateway_def counting_Close_def)

section \<open>Schema codec: proofs\<close>

subsection \<open>The library's steps on what the encoders write\<close>

lemma unmarshal_uint_uint [simp]: "unmarshal_uint (JInt (uint (w :: 64 word))) = Inr w"
  using uint_lt2p [of w] by (simp add: unmarshal_uint_def)

lemma unmarshal_uint_marshal [simp]: "unmarshal_uint (marshal_uint w) = Inr w"
  by (simp add: marshal_uint_def)

lemma unmarshal_int_marshal [simp]: "unmarshal_int (marshal_int w) = Inr w"
  using sint_ge [of w] sint_lt [of w] by (simp add: unmarshal_int_def marshal_int_def)

lemma unmarshal_ChannelType_marshal [simp]:
  "unmarshal_ChannelType (marshal_ChannelType t) = Inr t"
  by (simp add: unmarshal_ChannelType_def marshal_ChannelType_def)

lemma unmarshal_string_JStr [simp]: "unmarshal_string (JStr s) = Inr s"
  by (simp add: unmarshal_string_def)

lemma unmarshal_bool_JBool [simp]: "unmarshal_bool (JBool x) = Inr x"
  by (simp add: unmarshal_bool_def)

lemma andThen_Inr [simp]: "andThen (Inr x) f = f x"
  by (simp add: andThen_def)

lemma andThen_Inl [simp]: "andThen (Inl e) f = Inl e"
  by (simp add: andThen_def)

lemma members_JObj [simp]: "members (JObj kvs) = Inr kvs"
  by (simp add: members_def)

lemma len_simps [simp]: "len None = 0" "len (Some xs) = length xs"
  by (simp_all add: len_def)

lemma elems_simps [simp]: "elems None = []" "elems (Some xs) = xs"
  by (simp_all add: elems_def)

lemma len_elems: "len s = length (elems s)"
  by (cases s) simp_all

lemma field_Nil [simp]: "field [] k dec z = Inr z"
  by (simp add: field_def)

lemma field_Cons [simp]:
  "field ((k', v) # kvs) k dec z = (if k = k' then dec v else field kvs k dec z)"
  by (simp add: field_def)

lemma field_append:
  "field (xs @ ys) k dec z =
     (case map_of xs k of None \<Rightarrow> field ys k dec z | Some v \<Rightarrow> dec v)"
  by (simp add: field_def map_add_def split: option.splits)

lemma field_base:
  "field (marshal_base t n d r @ rest) k dec z =
     (if k = ''type'' then dec (JInt (uint t))
      else if k = ''name'' then dec (JStr n)
      else if k = ''description'' then dec (JStr d)
      else if k = ''required'' then dec (JBool r)
      else field rest k dec z)"
  by (simp add: marshal_base_def)

lemma field_omitempty_other:
  "k \<noteq> k' \<Longrightarrow> field (omitempty k' enc xs @ rest) k dec z = field rest k dec z"
  by (simp add: omitempty_def)

lemma map_of_omitempty:
  "map_of (omitempty k' enc xs) k =
     (if k = k' \<and> len xs \<noteq> 0 then Some (JArr (map enc (elems xs))) else None)"
  by (simp add: omitempty_def)

lemma map_of_omitempty_uint:
  "map_of (omitempty_uint k' enc x) k = (if k = k' \<and> x \<noteq> 0 then Some (enc x) else None)"
  by (simp add: omitempty_uint_def)

lemma map_of_without:
  "map_of (without a kvs) k = (if k = a then None else map_of kvs k)"
  by (induction kvs) (auto simp: without_def)

lemma field_without:
  "field (without a kvs) k dec z = (if k = a then Inr z else field kvs k dec z)"
  by (simp add: field_def map_of_without)

lemma mapM_map:
  "list_all (\<lambda>x. dec (enc x) = Inr (g x)) xs \<Longrightarrow> mapM dec (map enc xs) = Inr (map g xs)"
  by (induction xs) auto

lemma mapM_list_all2:
  "mapM f xs = Inr ys \<Longrightarrow> list_all2 (\<lambda>x y. f x = Inr y) xs ys"
  by (induction xs arbitrary: ys) (auto split: sum.splits)

lemma canon_slice_simps [simp]:
  "canon_slice None = None" "canon_slice (Some []) = None"
  "canon_slice (Some (x # xs)) = Some (x # xs)"
  by (simp_all add: canon_slice_def)

lemma canon_slice_fixed: "canon_slice s = s \<longleftrightarrow> s \<noteq> Some []"
  by (cases s) (auto simp: canon_slice_def)

lemmas OptionType_defs =
  SubcommandOptionType_def SubcommandGroupOptionType_def StringOptionType_def
  IntegerOptionType_def BooleanOptionType_def UserOptionType_def ChannelOptionType_def
  RoleOptionType_def MentionableOptionType_def NumberOptionType_def

lemmas decode_simps =
  UnknownCommandOption_UnmarshalJSON.simps SubcommandOption_UnmarshalJSON.simps
  unmarshal_SubcommandGroupOption.simps unmarshal_unknown_def unmarshal_uint_def
  OptionType_defs Let_def raw_elems_def unmarshal_slice_def unmarshal_StringOption_def
  unmarshal_choices_def

subsection \<open>Choices and value options\<close>

lemma Choice_roundtrip:
  "dec (enc (Choice_Value c)) = Inr (Choice_Value c) \<Longrightarrow>
   unmarshal_Choice dec z (marshal_Choice enc c) = Inr c"
  by (cases c) (simp add: unmarshal_Choice_def)

lemma unmarshal_choices_Nil [simp]: "unmarshal_choices dec z [] = Inr None"
  by (simp add: unmarshal_choices_def)

lemma unmarshal_choices_other [simp]:
  "k \<noteq> ''choices'' \<Longrightarrow> unmarshal_choices dec z ((k, v) # kvs) = unmarshal_choices dec z kvs"
  by (simp add: unmarshal_choices_def)

lemma unmarshal_choices_base [simp]:
  "unmarshal_choices dec z (marshal_base t n d r @ rest) = unmarshal_choices dec z rest"
  by (simp add: unmarshal_choices_def field_base)

lemma unmarshal_choices_channel_types [simp]:
  "unmarshal_choices dec z (omitempty ''channel_types'' enc ts) = Inr None"
  by (simp add: omitempty_def)

lemma choices_roundtrip:
  assumes "reads_back_choices dec enc cs"
    and "unmarshal_choices dec z rest = Inr None"
  shows "unmarshal_choices dec z (omitempty ''choices'' (marshal_Choice enc) cs @ rest) =
           Inr (canon_slice cs)"
proof (cases "len cs = 0")
  case True
  with assms(2) show ?thesis by (simp add: omitempty_def canon_slice_def)
next
  case False
  from assms(1)
  have "mapM (unmarshal_Choice dec z) (map (marshal_Choice enc) (elems cs)) =
          Inr (map id (elems cs))"
    by (intro mapM_map) (simp add: reads_back_choices_def list_all_iff Choice_roundtrip)
  with False show ?thesis
    by (cases cs)
      (simp_all add: unmarshal_choices_def omitempty_def unmarshal_slice_def canon_slice_def)
qed

lemma unmarshal_channel_types:
  "field (omitempty ''channel_types'' marshal_ChannelType ts) ''channel_types''
     (unmarshal_slice unmarshal_ChannelType) None = Inr (canon_slice ts)"
  using mapM_map [of unmarshal_ChannelType marshal_ChannelType id "elems ts"]
  by (cases ts) (simp_all add: omitempty_def unmarshal_slice_def list_all_iff canon_slice_def)

lemma reads_back_plain [simp]:
  "reads_back_choices unmarshal_string JStr cs"
  "reads_back_choices unmarshal_int marshal_int ci"
  "reads_back_choices unmarshal_bool JBool cb"
  by (simp_all add: reads_back_choices_def list_all_iff)

lemma StringOption_roundtrip:
  "unmarshal_StringOption (StringOption_MarshalJSON (StringOption n d r cs a)) =
     Inr (StringOption n d r (canon_slice cs) a)"
  using choices_roundtrip [of unmarshal_string JStr cs "[]" "[(''autocomplete'', JBool a)]"]
  by (simp add: unmarshal_StringOption_def field_base field_omitempty_other)

lemma IntegerOption_roundtrip:
  "unmarshal_IntegerOption (IntegerOption_MarshalJSON (IntegerOption n d r cs)) =
     Inr (IntegerOption n d r (canon_slice cs))"
  using choices_roundtrip [of unmarshal_int marshal_int cs 0 "[]"]
  by (simp add: unmarshal_IntegerOption_def field_base)

lemma BooleanOption_roundtrip:
  "unmarshal_BooleanOption (BooleanOption_MarshalJSON (BooleanOption n d r cs)) =
     Inr (BooleanOption n d r (canon_slice cs))"
  using choices_roundtrip [of unmarshal_bool JBool cs False "[]"]
  by (simp add: unmarshal_BooleanOption_def field_base)

lemma UserOption_roundtrip:
  "reads_back_value cd (UserValue (UserOption n d r cs)) \<Longrightarrow>
   unmarshal_UserOption cd (UserOption_MarshalJSON cd (UserOption n d r cs)) =
     Inr (UserOption n d r (canon_slice cs))"
  using choices_roundtrip [of "unmarshal_Snowflake_string cd" "marshal_Snowflake cd" cs 0 "[]"]
  by (simp add: unmarshal_UserOption_def field_base)

lemma ChannelOption_roundtrip:
  "reads_back_value cd (ChannelValue (ChannelOption n d r cs ts)) \<Longrightarrow>
   unmarshal_ChannelOption cd (ChannelOption_MarshalJSON cd (ChannelOption n d r cs ts)) =
     Inr (ChannelOption n d r (canon_slice cs) (canon_slice ts))"
  using choices_roundtrip [of "unmarshal_Snowflake_string cd" "marshal_Snowflake cd" cs 0
      "omitempty ''channel_types'' marshal_ChannelType ts"]
  by (simp add: unmarshal_ChannelOption_def field_base field_omitempty_other
      unmarshal_channel_types)

lemma RoleOption_roundtrip:
  "reads_back_value cd (RoleValue (RoleOption n d r cs)) \<Longrightarrow>
   unmarshal_RoleOption cd (RoleOption_MarshalJSON cd (RoleOption n d r cs)) =
     Inr (RoleOption n d r (canon_slice cs))"
  using choices_roundtrip [of "unmarshal_Snowflake_string cd" "marshal_Snowflake cd" cs 0 "[]"]
  by (simp add: unmarshal_RoleOption_def field_base)

lemma MentionableOption_roundtrip:
  "reads_back_value cd (MentionableValue (MentionableOption n d r cs)) \<Longrightarrow>
   unmarshal_MentionableOption cd
     (MentionableOption_MarshalJSON cd (MentionableOption n d r cs)) =
     Inr (MentionableOption n d r (canon_slice cs))"
  using choices_roundtrip [of "unmarshal_Snowflake_string cd" "marshal_Snowflake cd" cs 0 "[]"]
  by (simp add: unmarshal_MentionableOption_def field_base)

lemma NumberOption_roundtrip:
  "reads_back_value cd (NumberValue (NumberOption n d r cs)) \<Longrightarrow>
   unmarshal_NumberOption cd (NumberOption_MarshalJSON cd (NumberOption n d r cs)) =
     Inr (NumberOption n d r (canon_slice cs))"
  using choices_roundtrip [of "unmarshal_float64 cd" "marshal_float64 cd" cs 0 "[]"]
  by (simp add: unmarshal_NumberOption_def field_base)

subsection \<open>Decoding what was encoded\<close>

lemma unmarshal_unknown_base:
  "unmarshal_unknown (JObj (marshal_base t n d r @ rest)) = Inr (n, t)"
  by (simp add: unmarshal_unknown_def field_base)

lemma unmarshal_data_Inr [simp]: "unmarshal_data u variant (Inr x) = Inr (u, variant x)"
  by (simp add: unmarshal_data_def)

lemma Unknown_of_value:
  "known_value v \<Longrightarrow> reads_back_value cd v \<Longrightarrow>
   UnknownCommandOption_UnmarshalJSON cd (marshal_CommandOptionValue cd v) =
     Inr (UnknownCommandOption (CommandOptionValue_Name v) (CommandOptionValue_Type v) None,
          Value (canon_value v))"
proof (cases v)
  case (StringValue s)
  obtain n d r cs a where s: "s = StringOption n d r cs a" by (cases s)
  show ?thesis
    using StringOption_roundtrip [of n d r cs a]
    by (simp add: StringValue s UnknownCommandOption_UnmarshalJSON.simps
        unmarshal_unknown_base OptionType_defs)
next
  case (IntegerValue s)
  obtain n d r cs where s: "s = IntegerOption n d r cs" by (cases s)
  show ?thesis
    using IntegerOption_roundtrip [of n d r cs]
    by (simp add: IntegerValue s UnknownCommandOption_UnmarshalJSON.simps
        unmarshal_unknown_base OptionType_defs)
next
  case (BooleanValue s)
  obtain n d r cs where s: "s = BooleanOption n d r cs" by (cases s)
  show ?thesis
    using BooleanOption_roundtrip [of n d r cs]
    by (simp add: BooleanValue s UnknownCommandOption_UnmarshalJSON.simps
        unmarshal_unknown_base OptionType_defs)
next
  case (UserValue s)
  obtain n d r cs where s: "s = UserOption n d r cs" by (cases s)
  assume "reads_back_value cd v"
  then show ?thesis
    using UserOption_roundtrip [of cd n d r cs]
    by (simp add: UserValue s UnknownCommandOption_UnmarshalJSON.simps
        unmarshal_unknown_base OptionType_defs)
next
  case (ChannelValue s)
  obtain n d r cs ts where s: "s = ChannelOption n d r cs ts" by (cases s)
  assume "reads_back_value cd v"
  then show ?thesis
    using ChannelOption_roundtrip [of cd n d r cs ts]
    by (simp add: ChannelValue s UnknownCommandOption_UnmarshalJSON.simps
        unmarshal_unknown_base OptionType_defs)
next
  case (RoleValue s)
  obtain n d r cs where s: "s = RoleOption n d r cs" by (cases s)
  assume "reads_back_value cd v"
  then show ?thesis
    using RoleOption_roundtrip [of cd n d r cs]
    by (simp add: RoleValue s UnknownCommandOption_UnmarshalJSON.simps
        unmarshal_unknown_base OptionType_defs)
next
  case (MentionableValue s)
  obtain n d r cs where s: "s = MentionableOption n d r cs" by (cases s)
  assume "reads_back_value cd v"
  then show ?thesis
    using MentionableOption_roundtrip [of cd n d r cs]
    by (simp add: MentionableValue s UnknownCommandOption_UnmarshalJSON.simps
        unmarshal_unknown_base OptionType_defs)
next
  case (NumberValue s)
  obtain n d r cs where s: "s = NumberOption n d r cs" by (cases s)
  assume "reads_back_value cd v"
  then show ?thesis
    using NumberOption_roundtrip [of cd n d r cs]
    by (simp add: NumberValue s UnknownCommandOption_UnmarshalJSON.simps
        unmarshal_unknown_base OptionType_defs)
next
  case (UnknownValue u)
  assume "known_value v"
  with UnknownValue show ?thesis by simp
qed

lemma type_check_values:
  "type_check (map (\<lambda>v. (f v, Value (g v))) opts) = Inr (map g opts)"
  by (induction opts) auto

lemma raw_elems_options:
  "raw_elems (marshal_base t n d r @ [(''options'', marshal_slice enc s)]) ''options'' =
     Inr (map_option (map enc) s)"
  by (cases s) (simp_all add: raw_elems_def field_base unmarshal_slice_def marshal_slice_def)

lemma elems_map_option [simp]: "elems (map_option (map f) s) = map f (elems s)"
  by (cases s) simp_all

lemma SubcommandOption_roundtrip:
  assumes "known_subcommand s" and "reads_back_subcommand cd s"
  shows "SubcommandOption_UnmarshalJSON cd (SubcommandOption_MarshalJSON cd s) =
           Inr (canon_subcommand s)"
proof (cases s)
  case (SubcommandOption n d r opts)
  let ?u = "\<lambda>v. UnknownCommandOption (CommandOptionValue_Name v) (CommandOptionValue_Type v) None"
  from assms SubcommandOption
  have "list_all (\<lambda>v. UnknownCommandOption_UnmarshalJSON cd (marshal_CommandOptionValue cd v) =
           Inr (?u v, Value (canon_value v))) (elems opts)"
    by (simp add: list_all_iff Unknown_of_value)
  then have m: "mapM (UnknownCommandOption_UnmarshalJSON cd)
                  (map (marshal_CommandOptionValue cd) (elems opts)) =
                Inr (map (\<lambda>v. (?u v, Value (canon_value v))) (elems opts))"
    by (rule mapM_map)
  show ?thesis
    by (simp add: SubcommandOption SubcommandOption_UnmarshalJSON.simps field_base
        raw_elems_options m type_check_values)
qed

lemma SubcommandGroupOption_roundtrip:
  assumes "known (SubcommandGroup (SubcommandGroupOption n d r subs))"
    and "reads_back cd (SubcommandGroup (SubcommandGroupOption n d r subs))"
  shows "unmarshal_SubcommandGroupOption cd
           (SubcommandGroupOption_MarshalJSON cd (SubcommandGroupOption n d r subs)) =
           Inr (SubcommandGroupOption n d r
                  (map_option (map (map_option canon_subcommand)) subs))"
proof -
  let ?dec = "\<lambda>e. if e = JNull then Inr None
                   else andThen (SubcommandOption_UnmarshalJSON cd e) (\<lambda>s. Inr (Some s))"
  have one: "?dec (marshal_SubcommandOption_ptr cd p) = Inr (map_option canon_subcommand p)"
    if "case p of None \<Rightarrow> True | Some s \<Rightarrow> known_subcommand s"
      and "case p of None \<Rightarrow> True | Some s \<Rightarrow> reads_back_subcommand cd s" for p
  proof (cases p)
    case None
    then show ?thesis by (simp add: marshal_SubcommandOption_ptr_def)
  next
    case (Some s)
    with that have k: "known_subcommand s" and rb: "reads_back_subcommand cd s" by simp_all
    have "SubcommandOption_MarshalJSON cd s \<noteq> JNull" by (cases s) simp
    with Some SubcommandOption_roundtrip [OF k rb] show ?thesis
      by (simp add: marshal_SubcommandOption_ptr_def)
  qed
  from assms
  have "list_all (\<lambda>p. ?dec (marshal_SubcommandOption_ptr cd p) =
                      Inr (map_option canon_subcommand p)) (elems subs)"
    by (simp add: list_all_iff one)
  then have m: "mapM ?dec (map (marshal_SubcommandOption_ptr cd) (elems subs)) =
                  Inr (map (map_option canon_subcommand) (elems subs))"
    by (rule mapM_map)
  show ?thesis
    using m
    by (cases subs)
      (simp_all add: unmarshal_SubcommandGroupOption.simps field_base raw_elems_options)
qed

lemma CommandOption_Name_canon [simp]:
  "CommandOption_Name (canon opt) = CommandOption_Name opt"
proof (cases opt)
  case (Subcommand s) then show ?thesis by (cases s) simp
next
  case (SubcommandGroup g) then show ?thesis by (cases g) simp
next
  case (Value v) then show ?thesis by (cases v rule: canon_value.cases) simp_all
qed

lemma Unknown_of_option:
  "known opt \<Longrightarrow> reads_back cd opt \<Longrightarrow>
   UnknownCommandOption_UnmarshalJSON cd (marshal_CommandOption cd opt) =
     Inr (UnknownCommandOption (CommandOption_Name opt) (CommandOption_Type opt) None,
          canon opt)"
proof (cases opt)
  case (Subcommand s)
  assume "known opt" and "reads_back cd opt"
  with Subcommand have k: "known_subcommand s" and rb: "reads_back_subcommand cd s"
    by simp_all
  obtain n d r opts where s: "s = SubcommandOption n d r opts" by (cases s)
  define b where "b = marshal_CommandOption cd opt"
  have rt: "SubcommandOption_UnmarshalJSON cd b = Inr (canon_subcommand s)"
    using SubcommandOption_roundtrip [OF k rb] by (simp add: b_def Subcommand)
  have un: "unmarshal_unknown b = Inr (n, SubcommandOptionType)"
    by (simp add: b_def Subcommand s unmarshal_unknown_base)
  have "UnknownCommandOption_UnmarshalJSON cd b =
          Inr (UnknownCommandOption n SubcommandOptionType None,
               Subcommand (canon_subcommand s))"
    by (simp add: UnknownCommandOption_UnmarshalJSON.simps [of cd b] rt un)
  then show ?thesis by (simp add: b_def Subcommand s)
next
  case (SubcommandGroup g)
  obtain n d r subs where g: "g = SubcommandGroupOption n d r subs" by (cases g)
  assume "known opt" and "reads_back cd opt"
  with SubcommandGroup g
  have k: "known (SubcommandGroup (SubcommandGroupOption n d r subs))"
    and rb: "reads_back cd (SubcommandGroup (SubcommandGroupOption n d r subs))"
    by simp_all
  define b where "b = marshal_CommandOption cd opt"
  have rt: "unmarshal_SubcommandGroupOption cd b =
              Inr (SubcommandGroupOption n d r
                     (map_option (map (map_option canon_subcommand)) subs))"
    using SubcommandGroupOption_roundtrip [OF k rb] by (simp add: b_def SubcommandGroup g)
  have un: "unmarshal_unknown b = Inr (n, SubcommandGroupOptionType)"
    by (simp add: b_def SubcommandGroup g unmarshal_unknown_base)
  have "UnknownCommandOption_UnmarshalJSON cd b =
          Inr (UnknownCommandOption n SubcommandGroupOptionType None,
               SubcommandGroup (SubcommandGroupOption n d r
                  (map_option (map (map_option canon_subcommand)) subs)))"
    by (simp add: UnknownCommandOption_UnmarshalJSON.simps [of cd b] rt un OptionType_defs)
  then show ?thesis by (simp add: b_def SubcommandGroup g)
next
  case (Value v)
  assume "known opt" and "reads_back cd opt"
  with Value show ?thesis by (simp add: Unknown_of_value)
qed

lemma member_type:
  "member (marshal_CommandOption cd opt) ''type'' = Some (marshal_uint (CommandOption_Type opt))"
proof -
  have base: "map_of (marshal_base t n d r @ rest) ''type'' = Some (marshal_uint t)"
    for t n d r and rest :: "(string \<times> json) list"
    by (simp add: marshal_base_def marshal_uint_def map_add_def)
  have val: "member (marshal_CommandOptionValue cd v) ''type'' =
               Some (marshal_uint (CommandOptionValue_Type v))" for v
  proof (cases v)
    case (StringValue s)
    then show ?thesis by (cases s) (simp add: member_def base del: map_of_append)
  next
    case (IntegerValue s)
    then show ?thesis by (cases s) (simp add: member_def base del: map_of_append)
  next
    case (BooleanValue s)
    then show ?thesis by (cases s) (simp add: member_def base del: map_of_append)
  next
    case (UserValue s)
    then show ?thesis by (cases s) (simp add: member_def base del: map_of_append)
  next
    case (ChannelValue s)
    then show ?thesis by (cases s) (simp add: member_def base del: map_of_append)
  next
    case (RoleValue s)
    then show ?thesis by (cases s) (simp add: member_def base del: map_of_append)
  next
    case (MentionableValue s)
    then show ?thesis by (cases s) (simp add: member_def base del: map_of_append)
  next
    case (NumberValue s)
    then show ?thesis by (cases s) (simp add: member_def base del: map_of_append)
  next
    case (UnknownValue u)
    then show ?thesis by (cases u) (simp add: member_def)
  qed
  show ?thesis
  proof (cases opt)
    case (Subcommand s)
    then show ?thesis by (cases s) (simp add: member_def base del: map_of_append)
  next
    case (SubcommandGroup g)
    then show ?thesis by (cases g) (simp add: member_def base del: map_of_append)
  next
    case (Value v)
    then show ?thesis by (simp add: val)
  qed
qed

text \<open>
  C1, as stated, fails. A subcommand whose options are the nil slice is a tree of the
  known variants. Its encoding carries \<^verbatim>\<open>"options": null\<close>, and decoding that gives the
  subcommand with the slice that \<^verbatim>\<open>make\<close> created: empty, but not nil. A string option whose
  choices are an empty slice that is not nil is encoded without \<^verbatim>\<open>choices\<close> and decoded
  with nil choices. Neither decoding is the tree that was encoded.
\<close>

theorem Option_roundtrip_counterexample:
  "marshal_CommandOption stub_codec ex_nil_subcommand =
     JObj [(''type'', JInt 1), (''name'', JStr ''s''), (''description'', JStr ''sub''),
           (''required'', JBool False), (''options'', JNull)] \<and>
   UnknownCommandOption_UnmarshalJSON stub_codec
     (marshal_CommandOption stub_codec ex_nil_subcommand) =
     Inr (UnknownCommandOption ''s'' 1 None,
          Subcommand (SubcommandOption ''s'' ''sub'' False (Some []))) \<and>
   Subcommand (SubcommandOption ''s'' ''sub'' False (Some [])) \<noteq> ex_nil_subcommand \<and>
   UnknownCommandOption_UnmarshalJSON stub_codec
     (marshal_CommandOption stub_codec ex_empty_choices) =
     Inr (UnknownCommandOption ''a'' 3 None,
          Value (StringValue (StringOption ''a'' ''b'' True None False))) \<and>
   Value (StringValue (StringOption ''a'' ''b'' True None False)) \<noteq> ex_empty_choices"
  by (simp add: ex_nil_subcommand_def ex_empty_choices_def decode_simps marshal_base_def
      marshal_slice_def omitempty_def)

text \<open>
  C1, amended. For every tree of the known variants (value options, subcommands of value
  options, groups of subcommands) whose identifiers and numbers the codec's parameters
  read back and whose strings are valid UTF-8: the encoding carries the discriminant of the
  tree's variant as its member \<open>type\<close>, and decoding the encoding succeeds and gives the
  tree with its slices as the decoder makes them (\<open>canon\<close>), under the tree's name and
  discriminant and with no raw bytes kept. The decoding is the tree itself exactly when the
  tree is canonical: no value option in it holds an empty choice or channel kind slice that
  is not nil, and no subcommand in it holds nil options.
\<close>

theorem Option_roundtrip:
  assumes "known opt" and "reads_back cd opt" and "list_all valid_utf8 (strings_of opt)"
  shows "member (marshal_CommandOption cd opt) ''type'' =
           Some (marshal_uint (CommandOption_Type opt)) \<and>
         UnknownCommandOption_UnmarshalJSON cd (marshal_CommandOption cd opt) =
           Inr (UnknownCommandOption (CommandOption_Name opt) (CommandOption_Type opt) None,
                canon opt) \<and>
         (UnknownCommandOption_UnmarshalJSON cd (marshal_CommandOption cd opt) =
            Inr (UnknownCommandOption (CommandOption_Name opt) (CommandOption_Type opt) None,
                 opt)
          \<longleftrightarrow> canonical opt)"
  using assms(1,2) by (auto simp: member_type Unknown_of_option canonical_def)

text \<open>What being canonical comes to for a subcommand and for a string option.\<close>

lemma map_fixed: "map f xs = xs \<longleftrightarrow> (\<forall>x \<in> set xs. f x = x)"
  by (induction xs) auto

lemma canonical_Subcommand:
  "canonical (Subcommand (SubcommandOption n d r opts)) \<longleftrightarrow>
     opts \<noteq> None \<and> list_all (\<lambda>v. canon_value v = v) (elems opts)"
  by (cases opts) (simp_all add: canonical_def list_all_iff map_fixed)

lemma canonical_StringValue:
  "canonical (Value (StringValue (StringOption n d r cs a))) \<longleftrightarrow> cs \<noteq> Some []"
  by (simp add: canonical_def canon_slice_fixed)

theorem Option_roundtrip_witness:
  "known ex_tree \<and> reads_back stub_codec ex_tree \<and>
   list_all valid_utf8 (strings_of ex_tree) \<and> canonical ex_tree \<and>
   marshal_CommandOption stub_codec ex_tree =
     JObj [(''type'', JInt 2), (''name'', JStr ''g''), (''description'', JStr ''group''),
           (''required'', JBool False),
           (''options'', JArr
              [JObj [(''type'', JInt 1), (''name'', JStr ''s''), (''description'', JStr ''sub''),
                     (''required'', JBool False),
                     (''options'', JArr
                        [JObj [(''type'', JInt 3), (''name'', JStr ''a''),
                               (''description'', JStr ''b''), (''required'', JBool True),
                               (''choices'', JArr [JObj [(''name'', JStr ''x''),
                                                         (''value'', JStr ''y'')]]),
                               (''autocomplete'', JBool True)],
                         JObj [(''type'', JInt 6), (''name'', JStr ''u''),
                               (''description'', JStr []), (''required'', JBool False),
                               (''choices'', JArr [JObj [(''name'', JStr ''me''),
                                                         (''value'', JInt 5)]])],
                         JObj [(''type'', JInt 4), (''name'', JStr ''i''),
                               (''description'', JStr []), (''required'', JBool False),
                               (''choices'', JArr [JObj [(''name'', JStr ''neg''),
                                                         (''value'', JInt (- 5))]])],
                         JObj [(''type'', JInt 5), (''name'', JStr ''b''),
                               (''description'', JStr []), (''required'', JBool False)]])],
               JNull])] \<and>
   UnknownCommandOption_UnmarshalJSON stub_codec (marshal_CommandOption stub_codec ex_tree) =
     Inr (UnknownCommandOption ''g'' SubcommandGroupOptionType None, ex_tree)"
  using Option_roundtrip [of ex_tree stub_codec]
  by (simp add: ex_tree_def stub_codec_def reads_back_choices_def marshal_base_def
      marshal_SubcommandOption_ptr_def omitempty_def marshal_uint_def marshal_int_def
      marshal_slice_def OptionType_defs canonical_def valid_utf8_def choice_names_def)

subsection \<open>Options of a discriminant that is not known\<close>

text \<open>
  C2, as stated, fails. An option object with the discriminant 11 and a member beyond
  \<open>name\<close> and \<open>type\<close> decodes to the unknown variant, which keeps the object as its raw
  bytes; encoding that variant does not give the object back.
\<close>

theorem Unknown_reencode_counterexample:
  "UnknownCommandOption_UnmarshalJSON stub_codec
     (JObj [(''name'', JStr ''x''), (''type'', JInt 11), (''value'', JStr ''v'')]) =
     Inr (UnknownCommandOption ''x'' 11
            (Some (JObj [(''name'', JStr ''x''), (''type'', JInt 11), (''value'', JStr ''v'')])),
          Value (UnknownValue (UnknownCommandOption ''x'' 11
            (Some (JObj [(''name'', JStr ''x''), (''type'', JInt 11),
                         (''value'', JStr ''v'')]))))) \<and>
   marshal_CommandOption stub_codec
     (Value (UnknownValue (UnknownCommandOption ''x'' 11
        (Some (JObj [(''name'', JStr ''x''), (''type'', JInt 11), (''value'', JStr ''v'')]))))) \<noteq>
     JObj [(''name'', JStr ''x''), (''type'', JInt 11), (''value'', JStr ''v'')]"
  by (simp add: UnknownCommandOption_UnmarshalJSON.simps unmarshal_unknown_def
      unmarshal_uint_def OptionType_defs marshal_uint_def Let_def)

text \<open>
  C2, amended. For every option object whose member \<open>name\<close> reads as a string and whose
  member \<open>type\<close> reads as an unsigned integer that is 0 or above 10 (a member that is absent
  reads as the empty string, and as 0): decoding succeeds and gives the unknown variant
  with that name and discriminant; its raw bytes, which the accessor \<open>Raw\<close> returns, are
  the object as it was received. Encoding the variant writes its name and its discriminant
  and nothing else.
\<close>

theorem Unknown_forward_compatible:
  assumes "field kvs ''name'' unmarshal_string [] = Inr n"
    and "field kvs ''type'' unmarshal_uint 0 = Inr t"
    and "t = 0 \<or> 10 < t"
  shows "UnknownCommandOption_UnmarshalJSON cd (JObj kvs) =
           Inr (UnknownCommandOption n t (Some (JObj kvs)),
                Value (UnknownValue (UnknownCommandOption n t (Some (JObj kvs))))) \<and>
         UnknownCommandOption_Raw
           (UnknownCommandOption n t (Some (JObj kvs)),
            Value (UnknownValue (UnknownCommandOption n t (Some (JObj kvs))))) =
           Some (JObj kvs) \<and>
         marshal_CommandOption cd
           (Value (UnknownValue (UnknownCommandOption n t (Some (JObj kvs))))) =
           JObj [(''name'', JStr n), (''type'', JInt (uint t))]"
proof -
  have un: "unmarshal_unknown (JObj kvs) = Inr (n, t)"
    using assms(1,2) by (simp add: unmarshal_unknown_def)
  from assms(3) have "t \<noteq> 1" "t \<noteq> 2" "t \<noteq> 3" "t \<noteq> 4" "t \<noteq> 5" "t \<noteq> 6" "t \<noteq> 7" "t \<noteq> 8"
    "t \<noteq> 9" "t \<noteq> 10"
    by auto
  then show ?thesis
    by (simp add: UnknownCommandOption_UnmarshalJSON.simps [of cd "JObj kvs"] un
        OptionType_defs UnknownCommandOption_Raw_def marshal_uint_def Let_def)
qed

theorem Unknown_forward_compatible_witness:
  "UnknownCommandOption_UnmarshalJSON stub_codec
     (JObj [(''name'', JStr ''x''), (''type'', JInt 11), (''value'', JStr ''v'')]) =
     Inr (UnknownCommandOption ''x'' 11
            (Some (JObj [(''name'', JStr ''x''), (''type'', JInt 11), (''value'', JStr ''v'')])),
          Value (UnknownValue (UnknownCommandOption ''x'' 11
            (Some (JObj [(''name'', JStr ''x''), (''type'', JInt 11),
                         (''value'', JStr ''v'')]))))) \<and>
   marshal_CommandOption stub_codec
     (Value (UnknownValue (UnknownCommandOption ''x'' 11
        (Some (JObj [(''name'', JStr ''x''), (''type'', JInt 11), (''value'', JStr ''v'')]))))) =
     JObj [(''name'', JStr ''x''), (''type'', JInt 11)]"
  using Unknown_forward_compatible [of "[(''name'', JStr ''x''), (''type'', JInt 11),
      (''value'', JStr ''v'')]" "''x''" 11 stub_codec]
  by (simp add: unmarshal_uint_def)

text \<open>
  A discriminant beyond the range of \<^verbatim>\<open>uint\<close> is not read as an unknown option: the first
  step of the decoding fails on it.
\<close>

lemma Unknown_discriminant_overflow:
  assumes "field kvs ''name'' unmarshal_string [] = Inr n"
    and "map_of kvs ''type'' = Some (JInt i)"
    and "2 ^ 64 \<le> i"
  shows "UnknownCommandOption_UnmarshalJSON cd (JObj kvs) =
           Inl (Wrapped ''failed to unmarshal unknown'' (UnmarshalTypeError ''uint''))"
  using assms
  by (simp add: UnknownCommandOption_UnmarshalJSON.simps unmarshal_unknown_def field_def
      unmarshal_uint_def)

subsection \<open>The type check of a subcommand's options\<close>

lemma type_check_find:
  "type_check opts =
     (case find (\<lambda>(u, data). lacks_val data) opts of
        Some (u, data) \<Rightarrow> Inl (commandTypeCheckError (OptionName u) data ''CommandOptionValue'')
      | None \<Rightarrow> Inr (map (the_value \<circ> snd) opts))"
proof (induction opts)
  case Nil
  then show ?case by simp
next
  case (Cons p opts)
  obtain u data where p: "p = (u, data)" by (cases p)
  show ?case
    using Cons.IH by (cases data) (simp_all add: p split: option.splits prod.splits)
qed

lemma Unknown_fields:
  assumes "UnknownCommandOption_UnmarshalJSON cd e = Inr (u, data)"
  shows "unmarshal_unknown e = Inr (OptionName u, OptionType u) \<and>
         (lacks_val data \<longleftrightarrow>
            OptionType u = SubcommandOptionType \<or> OptionType u = SubcommandGroupOptionType)"
proof -
  obtain n t where un: "unmarshal_unknown e = Inr (n, t)"
    using assms
    by (cases "unmarshal_unknown e")
      (auto simp: UnknownCommandOption_UnmarshalJSON.simps [of cd e])
  show ?thesis
    using assms
    by (auto simp: UnknownCommandOption_UnmarshalJSON.simps [of cd e] un Let_def
        unmarshal_data_def OptionType_defs split: if_splits sum.splits)
qed

text \<open>
  C4. Take a subcommand object on the wire: its \<open>type\<close> reads as 1, its \<open>name\<close>,
  \<open>description\<close> and \<open>required\<close> read as \<open>n\<close>, \<open>d\<close> and \<open>r\<close>, and the elements of its
  \<open>options\<close> array \<open>es\<close> decode to \<open>opts\<close>. If some element decoded to a variant without the
  value capability, decoding the subcommand fails with the type check error that carries
  the name of the first such element, the value it decoded to, and the capability name
  "CommandOptionValue". If every element decoded to a variant with the capability,
  decoding succeeds with these elements as the subcommand's options. The name the error
  carries is the member \<open>name\<close> of the element, and the elements that decode to a variant
  without the capability are those of discriminant 1 or 2.
\<close>

theorem Subcommand_type_check:
  assumes "members b = Inr kvs"
    and "field kvs ''name'' unmarshal_string [] = Inr n"
    and "field kvs ''description'' unmarshal_string [] = Inr d"
    and "field kvs ''required'' unmarshal_bool False = Inr r"
    and "field kvs ''type'' unmarshal_uint 0 = Inr SubcommandOptionType"
    and "raw_elems kvs ''options'' = Inr es"
    and "mapM (UnknownCommandOption_UnmarshalJSON cd) (elems es) = Inr opts"
  shows "SubcommandOption_UnmarshalJSON cd b =
           (case find (\<lambda>(u, data). lacks_val data) opts of
              Some (u, data) \<Rightarrow>
                Inl (commandTypeCheckError (OptionName u) data ''CommandOptionValue'')
            | None \<Rightarrow> Inr (SubcommandOption n d r (Some (map (the_value \<circ> snd) opts)))) \<and>
         list_all2 (\<lambda>e (u, data).
             unmarshal_unknown e = Inr (OptionName u, OptionType u) \<and>
             (lacks_val data \<longleftrightarrow>
                OptionType u = SubcommandOptionType \<or>
                OptionType u = SubcommandGroupOptionType)) (elems es) opts"
proof
  show "SubcommandOption_UnmarshalJSON cd b =
           (case find (\<lambda>(u, data). lacks_val data) opts of
              Some (u, data) \<Rightarrow>
                Inl (commandTypeCheckError (OptionName u) data ''CommandOptionValue'')
            | None \<Rightarrow> Inr (SubcommandOption n d r (Some (map (the_value \<circ> snd) opts))))"
    using assms
    by (simp add: SubcommandOption_UnmarshalJSON.simps [of cd b] type_check_find
        split: option.splits)
  from mapM_list_all2 [OF assms(7)]
  show "list_all2 (\<lambda>e (u, data).
             unmarshal_unknown e = Inr (OptionName u, OptionType u) \<and>
             (lacks_val data \<longleftrightarrow>
                OptionType u = SubcommandOptionType \<or>
                OptionType u = SubcommandGroupOptionType)) (elems es) opts"
    by (rule list_all2_mono) (auto dest: Unknown_fields)
qed

theorem Subcommand_type_check_witness:
  "SubcommandOption_UnmarshalJSON stub_codec ex_bad_subcommand =
     Inl (commandTypeCheckError ''inner''
            (Subcommand (SubcommandOption ''inner'' [] False (Some [])))
            ''CommandOptionValue'') \<and>
   SubcommandOption_UnmarshalJSON stub_codec ex_good_subcommand =
     Inr (SubcommandOption ''outer'' [] False
            (Some [StringValue (StringOption ''ok'' [] False None False),
                   UnknownValue (UnknownCommandOption ''new'' 12
                     (Some (JObj [(''type'', JInt 12), (''name'', JStr ''new'')])))]))"
  using
    Subcommand_type_check [of ex_bad_subcommand
      "[(''type'', JInt 1), (''name'', JStr ''outer''),
        (''options'', JArr [JObj [(''type'', JInt 3), (''name'', JStr ''ok'')],
                            JObj [(''type'', JInt 1), (''name'', JStr ''inner'')]])]"
      "''outer''" "[]" False
      "Some [JObj [(''type'', JInt 3), (''name'', JStr ''ok'')],
             JObj [(''type'', JInt 1), (''name'', JStr ''inner'')]]"
      stub_codec
      "[(UnknownCommandOption ''ok'' 3 None,
         Value (StringValue (StringOption ''ok'' [] False None False))),
        (UnknownCommandOption ''inner'' 1 None,
         Subcommand (SubcommandOption ''inner'' [] False (Some [])))]"]
    Subcommand_type_check [of ex_good_subcommand
      "[(''type'', JInt 1), (''name'', JStr ''outer''),
        (''options'', JArr [JObj [(''type'', JInt 3), (''name'', JStr ''ok'')],
                            JObj [(''type'', JInt 12), (''name'', JStr ''new'')]])]"
      "''outer''" "[]" False
      "Some [JObj [(''type'', JInt 3), (''name'', JStr ''ok'')],
             JObj [(''type'', JInt 12), (''name'', JStr ''new'')]]"
      stub_codec
      "[(UnknownCommandOption ''ok'' 3 None,
         Value (StringValue (StringOption ''ok'' [] False None False))),
        (UnknownCommandOption ''new'' 12
           (Some (JObj [(''type'', JInt 12), (''name'', JStr ''new'')])),
         Value (UnknownValue (UnknownCommandOption ''new'' 12
           (Some (JObj [(''type'', JInt 12), (''name'', JStr ''new'')])))))]"]
  by (simp add: ex_bad_subcommand_def ex_good_subcommand_def decode_simps)

subsection \<open>Command\<close>

lemma CommandOptions_roundtrip:
  assumes "list_all (\<lambda>opt. known opt \<and> reads_back cd opt) (elems opts)" and "len opts \<noteq> 0"
  shows "CommandOptions_UnmarshalJSON cd (JArr (map (marshal_CommandOption cd) (elems opts))) =
           Inr (Some (map canon (elems opts)))"
proof -
  let ?u = "\<lambda>opt. (UnknownCommandOption (CommandOption_Name opt) (CommandOption_Type opt) None,
                   canon opt)"
  from assms(1)
  have "list_all (\<lambda>opt. UnknownCommandOption_UnmarshalJSON cd (marshal_CommandOption cd opt) =
           Inr (?u opt)) (elems opts)"
    by (simp add: list_all_iff Unknown_of_option)
  then have "mapM (UnknownCommandOption_UnmarshalJSON cd)
               (map (marshal_CommandOption cd) (elems opts)) = Inr (map ?u (elems opts))"
    by (rule mapM_map)
  with assms(2) show ?thesis
    by (simp add: CommandOptions_UnmarshalJSON_def unmarshal_slice_def
        UnknownCommandOption_Data_def comp_def len_elems)
qed

lemma Command_roundtrip:
  assumes "Command_reads_back cd c"
  shows "Command_UnmarshalJSON cd (Command_MarshalJSON cd c) =
           Inr (c\<lparr>Type := (if Type c = 0 then ChatInputCommand else Type c),
                  Options := (if len (Options c) = 0 then None
                              else Some (map canon (elems (Options c))))\<rparr>)"
proof -
  have opts: "len (Options c) \<noteq> 0 \<Longrightarrow>
      CommandOptions_UnmarshalJSON cd
        (JArr (map (marshal_CommandOption cd) (elems (Options c)))) =
        Inr (Some (map canon (elems (Options c))))"
    using assms CommandOptions_roundtrip [of cd "Options c"]
    by (simp add: Command_reads_back_def)
  show ?thesis
    using assms opts
    by (simp add: Command_reads_back_def Command_UnmarshalJSON_def Command_MarshalJSON_def
        field_append map_of_omitempty map_of_omitempty_uint Let_def)
qed

text \<open>
  C7. The encoding of a command carries \<open>default_permission\<close> as the negation of the
  command's \<open>NoDefaultPermission\<close>: true when the flag is unset, false when it is set.
  Decoding an object whose \<open>default_permission\<close> is a boolean gives a command whose flag is
  the negation of it. And a command whose identifiers and options the codec reads back
  decodes from its own encoding, with the flag it had.
\<close>

theorem Command_default_permission:
  "member (Command_MarshalJSON cd c) ''default_permission'' =
     Some (JBool (\<not> NoDefaultPermission c)) \<and>
   (map_of kvs ''default_permission'' = Some (JBool w) \<and>
    Command_UnmarshalJSON cd (JObj kvs) = Inr c' \<longrightarrow> NoDefaultPermission c' = (\<not> w)) \<and>
   (Command_reads_back cd c \<longrightarrow>
      (\<exists>c''. Command_UnmarshalJSON cd (Command_MarshalJSON cd c) = Inr c'' \<and>
             NoDefaultPermission c'' = NoDefaultPermission c))"
proof (intro conjI impI)
  show "member (Command_MarshalJSON cd c) ''default_permission'' =
          Some (JBool (\<not> NoDefaultPermission c))"
    by (simp add: member_def Command_MarshalJSON_def Let_def map_add_def map_of_omitempty
        map_of_omitempty_uint)
next
  assume a: "map_of kvs ''default_permission'' = Some (JBool w) \<and>
             Command_UnmarshalJSON cd (JObj kvs) = Inr c'"
  then have "field kvs ''default_permission'' unmarshal_bool False = Inr w"
    by (simp add: field_def)
  with a show "NoDefaultPermission c' = (\<not> w)"
    by (auto simp: Command_UnmarshalJSON_def andThen_def Let_def split: sum.splits if_splits)
next
  assume "Command_reads_back cd c"
  from Command_roundtrip [OF this]
  show "\<exists>c''. Command_UnmarshalJSON cd (Command_MarshalJSON cd c) = Inr c'' \<and>
              NoDefaultPermission c'' = NoDefaultPermission c"
    by simp
qed

theorem Command_default_permission_witness:
  "member (Command_MarshalJSON stub_codec ex_command) ''default_permission'' =
     Some (JBool False) \<and>
   member (Command_MarshalJSON stub_codec (ex_command\<lparr>NoDefaultPermission := False\<rparr>))
     ''default_permission'' = Some (JBool True) \<and>
   Command_reads_back stub_codec ex_command \<and>
   (\<exists>c''. Command_UnmarshalJSON stub_codec (Command_MarshalJSON stub_codec ex_command) =
            Inr c'' \<and> NoDefaultPermission c'' = True)"
  using Command_default_permission [of stub_codec ex_command]
    Command_default_permission [of stub_codec "ex_command\<lparr>NoDefaultPermission := False\<rparr>"]
  by (simp add: ex_command_def Command_reads_back_def ex_tree_def stub_codec_def
      reads_back_choices_def)

text \<open>
  C8. When a command object decodes, and its member \<open>type\<close> is absent, \<^verbatim>\<open>null\<close> or 0, the
  command's type is the chat-input one (1). When the member is a discriminant other than 0
  the command's type is that discriminant.
\<close>

theorem Command_type_default:
  assumes "Command_UnmarshalJSON cd (JObj kvs) = Inr c"
  shows "(map_of kvs ''type'' = None \<or> map_of kvs ''type'' = Some JNull \<or>
          map_of kvs ''type'' = Some (JInt 0) \<longrightarrow> Type c = ChatInputCommand) \<and>
         (t \<noteq> 0 \<and> map_of kvs ''type'' = Some (JInt (uint t)) \<longrightarrow> Type c = t)"
proof -
  obtain t' where f: "field kvs ''type'' unmarshal_uint 0 = Inr t'"
    and c: "Type c = (if t' = 0 then ChatInputCommand else t')"
    using assms
    by (auto simp: Command_UnmarshalJSON_def andThen_def Let_def split: sum.splits if_splits)
  have "Type c = ChatInputCommand"
    if "map_of kvs ''type'' = None \<or> map_of kvs ''type'' = Some JNull \<or>
        map_of kvs ''type'' = Some (JInt 0)"
    using that f c by (auto simp: field_def unmarshal_uint_def)
  moreover have "Type c = t" if "t \<noteq> 0 \<and> map_of kvs ''type'' = Some (JInt (uint t))"
    using that f c by (auto simp: field_def)
  ultimately show ?thesis by blast
qed

theorem Command_type_default_witness:
  "Command_UnmarshalJSON stub_codec (JObj [(''id'', JInt 7), (''name'', JStr ''ping'')]) =
     Inr \<lparr>ID = 7, Type = 1, AppID = 0, GuildID = 0, Name = ''ping'', Description = [],
          Options = None, NoDefaultPermission = True, Version = 0\<rparr> \<and>
   Type \<lparr>ID = 7, Type = 1, AppID = 0, GuildID = 0, Name = ''ping'', Description = [],
         Options = None, NoDefaultPermission = True, Version = 0\<rparr> = ChatInputCommand \<and>
   Command_UnmarshalJSON stub_codec
     (JObj [(''id'', JInt 7), (''type'', JInt 3), (''name'', JStr ''ping'')]) =
     Inr \<lparr>ID = 7, Type = MessageCommand, AppID = 0, GuildID = 0, Name = ''ping'',
          Description = [], Options = None, NoDefaultPermission = True, Version = 0\<rparr>"
  using
    Command_type_default [of stub_codec "[(''id'', JInt 7), (''name'', JStr ''ping'')]"
      "\<lparr>ID = 7, Type = 1, AppID = 0, GuildID = 0, Name = ''ping'', Description = [],
        Options = None, NoDefaultPermission = True, Version = 0\<rparr>" 3]
    Command_type_default [of stub_codec
      "[(''id'', JInt 7), (''type'', JInt 3), (''name'', JStr ''ping'')]"
      "\<lparr>ID = 7, Type = 3, AppID = 0, GuildID = 0, Name = ''ping'', Description = [],
        Options = None, NoDefaultPermission = True, Version = 0\<rparr>" 3]
  by (simp add: Command_UnmarshalJSON_def stub_codec_def unmarshal_uint_def
      ChatInputCommand_def MessageCommand_def)

text \<open>
  C10. Decoding a command object whose member \<open>options\<close> is the array with no elements
  gives exactly what decoding the same object without that member gives. When it gives a
  command, the command's options are the nil slice (\<open>None\<close>; the empty slice that is not
  nil is \<open>Some []\<close>), and encoding the command writes no member \<open>options\<close>.
\<close>

theorem Command_empty_options:
  assumes "map_of kvs ''options'' = Some (JArr [])"
  shows "Command_UnmarshalJSON cd (JObj kvs) =
           Command_UnmarshalJSON cd (JObj (without ''options'' kvs)) \<and>
         (Command_UnmarshalJSON cd (JObj kvs) = Inr c \<longrightarrow>
            Options c = None \<and> member (Command_MarshalJSON cd c) ''options'' = None)"
proof -
  have o: "field kvs ''options'' (CommandOptions_UnmarshalJSON cd) None = Inr None"
    using assms
    by (simp add: field_def CommandOptions_UnmarshalJSON_def unmarshal_slice_def)
  have eq: "Command_UnmarshalJSON cd (JObj kvs) =
              Command_UnmarshalJSON cd (JObj (without ''options'' kvs))"
    by (simp add: Command_UnmarshalJSON_def field_without o)
  have "Options c = None" if "Command_UnmarshalJSON cd (JObj kvs) = Inr c"
    using that o
    by (auto simp: Command_UnmarshalJSON_def andThen_def Let_def split: sum.splits if_splits)
  moreover have "member (Command_MarshalJSON cd c) ''options'' = None" if "Options c = None"
    using that
    by (simp add: member_def Command_MarshalJSON_def Let_def map_add_def map_of_omitempty
        map_of_omitempty_uint)
  ultimately show ?thesis using eq by simp
qed

theorem Command_empty_options_witness:
  "Command_UnmarshalJSON stub_codec
     (JObj [(''id'', JInt 7), (''name'', JStr ''ping''), (''options'', JArr [])]) =
     Inr \<lparr>ID = 7, Type = 1, AppID = 0, GuildID = 0, Name = ''ping'', Description = [],
          Options = None, NoDefaultPermission = True, Version = 0\<rparr> \<and>
   Command_UnmarshalJSON stub_codec (JObj [(''id'', JInt 7), (''name'', JStr ''ping'')]) =
     Inr \<lparr>ID = 7, Type = 1, AppID = 0, GuildID = 0, Name = ''ping'', Description = [],
          Options = None, NoDefaultPermission = True, Version = 0\<rparr> \<and>
   Command_MarshalJSON stub_codec
     \<lparr>ID = 7, Type = 1, AppID = 0, GuildID = 0, Name = ''ping'', Description = [],
      Options = None, NoDefaultPermission = True, Version = 0\<rparr> =
     JObj [(''id'', JInt 7), (''type'', JInt 1), (''application_id'', JInt 0),
           (''name'', JStr ''ping''), (''description'', JStr []),
           (''default_permission'', JBool False)]"
  using Command_empty_options [of
      "[(''id'', JInt 7), (''name'', JStr ''ping''), (''options'', JArr [])]" stub_codec
      "\<lparr>ID = 7, Type = 1, AppID = 0, GuildID = 0, Name = ''ping'', Description = [],
        Options = None, NoDefaultPermission = True, Version = 0\<rparr>"]
  by (simp add: without_def Command_UnmarshalJSON_def Command_MarshalJSON_def stub_codec_def
      unmarshal_uint_def marshal_uint_def ChatInputCommand_def omitempty_def
      omitempty_uint_def CommandOptions_UnmarshalJSON_def unmarshal_slice_def)

end
